theory Spec2Isabelle
  imports Main "HOL-Library.Word"
begin

section \<open>Strings and decoded values\<close>

text \<open>
  A Python \<open>str\<close> is a \<open>string\<close>; a character is read as the code point of the same
  number, U+0000 to U+00FF. \<open>isspace\<close> lists the code points of that range that
  \<open>str.strip()\<close> removes, \<open>lower\<close> is \<open>str.lower()\<close> on that range.
\<close>

definition isspace :: "char \<Rightarrow> bool" where
  "isspace c = (c \<in> set [CHR 0x09, CHR 0x0A, CHR 0x0B, CHR 0x0C, CHR 0x0D,
                          CHR 0x1C, CHR 0x1D, CHR 0x1E, CHR 0x1F, CHR 0x20,
                          CHR 0x85, CHR 0xA0])"

definition strip :: "string \<Rightarrow> string" where
  "strip s = rev (dropWhile isspace (rev (dropWhile isspace s)))"

definition startswith :: "string \<Rightarrow> string \<Rightarrow> bool" where
  "startswith s p = (take (length p) s = p)"

definition endswith :: "string \<Rightarrow> string \<Rightarrow> bool" where
  "endswith s p = (length p \<le> length s \<and> drop (length s - length p) s = p)"

definition lower_char :: "char \<Rightarrow> char" where
  "lower_char c = (let n = (of_char c :: nat) in
     if (65 \<le> n \<and> n \<le> 90) \<or> (192 \<le> n \<and> n \<le> 222 \<and> n \<noteq> 215)
     then char_of (n + 32) else c)"

definition lower :: "string \<Rightarrow> string" where
  "lower s = map lower_char s"

text \<open>\<open>sep.join(xs)\<close>.\<close>

fun join :: "string \<Rightarrow> string list \<Rightarrow> string" where
  "join sep [] = []"
| "join sep [x] = x"
| "join sep (x # y # ys) = x @ sep @ join sep (y # ys)"

text \<open>\<open>p in s\<close> for two strings: \<open>p\<close> occurs in \<open>s\<close>.\<close>

fun str_contains :: "string \<Rightarrow> string \<Rightarrow> bool" where
  "str_contains [] p = (p = [])"
| "str_contains (c # cs) p = (startswith (c # cs) p \<or> str_contains cs p)"

text \<open>
  What \<open>json.loads\<close> returns: \<open>None\<close>, a bool, an int, a float (held as its
  IEEE-754 binary64 bit pattern), a str, a list or a dict. A dict is an association
  list; a key is looked up with \<open>map_of\<close>.
\<close>

datatype pyval =
    PyNone
  | PyBool bool
  | PyInt int
  | PyFloat "64 word"
  | PyStr string
  | PyList "pyval list"
  | PyDict "(string \<times> pyval) list"

section \<open>Exceptions and the runtime\<close>

text \<open>
  An exception is its class, as far as a handler of the module tells classes apart,
  and the text \<open>str(e)\<close>. \<open>OtherException\<close> is any other subclass of \<open>Exception\<close>
  (AttributeError, TypeError, KeyError, IndexError, the client's transport errors).
\<close>

datatype exn =
    JSONDecodeError string
  | ValueError string
  | OtherException string

fun str_exn :: "exn \<Rightarrow> string" where
  "str_exn (JSONDecodeError m) = m"
| "str_exn (ValueError m) = m"
| "str_exn (OtherException m) = m"

text \<open>The errors the interpreter itself raises in the module, by the place that raises.\<close>

datatype fault =
    NoAttribute pyval string
  | NotContainer pyval
  | BadSubscript pyval
  | NoKey string

text \<open>The typed content of a configuration file: both entries are optional.\<close>

record config =
  cfg_labels :: "string list option"
  cfg_prompt_template :: "string option"

text \<open>A request to the completion service: the model identifier and the user prompt.\<close>

type_synonym request = "string \<times> string"

text \<open>
  Everything the module calls and does not define. \<open>complete\<close> is
  \<open>client.chat.completions.create(...)\<close> followed by
  \<open>response.choices[0].message.content\<close>: it sees the requests made so far and the
  present one, and either raises or gives the content, which may be \<open>None\<close>.
  \<open>str_format t l x\<close> is \<open>t.format(labels=l, text=x)\<close>; \<open>list_repr\<close> is the
  rendering of a list inside an f-string; \<open>fault_str\<close> is \<open>str(e)\<close> of an
  interpreter error.
\<close>

record runtime =
  json_loads :: "string \<Rightarrow> exn + pyval"
  str_format :: "string \<Rightarrow> string \<Rightarrow> string \<Rightarrow> exn + string"
  list_repr :: "string list \<Rightarrow> string"
  fault_str :: "fault \<Rightarrow> string"
  complete :: "request list \<Rightarrow> request \<Rightarrow> exn + string option"
  getenv :: "string \<Rightarrow> string option"
  new_client :: "string \<Rightarrow> exn option"
  path_exists :: "string \<Rightarrow> bool"
  load_config :: "string \<Rightarrow> exn + config"

section \<open>The classifier\<close>

record ClassificationResult =
  text_field :: string
  predicted_label :: string
  confidence :: pyval
  rationale :: pyval
  error :: "string option"

record TextClassifier =
  api_key :: string
  model :: string
  labels :: "string list"
  prompt_template :: string

definition default_labels :: "string list" where
  "default_labels = [''Complaint'', ''Inquiry'', ''Feedback'', ''Other'']"

definition default_prompt_template :: string where
  "default_prompt_template = join [CHR 0x0A]
    [''You are a text classification system. Classify the following text into exactly one of these categories: {labels}'',
     '''',
     ''Classification Rules:'',
     ''- Complaint: Expresses dissatisfaction, problems, or negative experiences'',
     ''- Inquiry: Asks questions, seeks information, or requests clarification'',
     ''- Feedback: Provides suggestions, opinions, or general comments (positive or constructive)'',
     ''- Other: Does not fit into the above categories'',
     '''',
     ''Text to classify: \"{text}\"'',
     '''',
     ''Respond with a JSON object containing:'',
     ''1. \"label\": The exact category name (must match one of: {labels})'',
     ''2. \"confidence\": A number between 0.0 and 1.0 indicating classification confidence'',
     ''3. \"rationale\": A brief explanation (1-2 sentences) of why this classification was chosen'',
     '''',
     ''Response format (JSON only, no additional text):'']"

text \<open>\<open>x or y\<close> on optional strings, and the truth value of one.\<close>

definition truthy :: "string option \<Rightarrow> bool" where
  "truthy x = (case x of None \<Rightarrow> False | Some s \<Rightarrow> s \<noteq> [])"

text \<open>
  \<open>__init__\<close>. The arguments are \<open>api_key\<close>, \<open>model\<close>, \<open>labels\<close> and
  \<open>config_file\<close>; an argument left out is \<open>None\<close>.
\<close>

definition init ::
  "runtime \<Rightarrow> string option \<Rightarrow> string \<Rightarrow> string list option \<Rightarrow> string option
     \<Rightarrow> exn + TextClassifier" where
  "init rt key_arg model_arg labels_arg config_file =
     (case (if truthy key_arg then key_arg else getenv rt ''OPENAI_API_KEY'') of
        None \<Rightarrow> Inl (ValueError (''OpenAI API key not found. Set OPENAI_API_KEY environment variable '' @
                                 ''or pass api_key parameter.''))
      | Some k \<Rightarrow>
          if k = [] then
            Inl (ValueError (''OpenAI API key not found. Set OPENAI_API_KEY environment variable '' @
                             ''or pass api_key parameter.''))
          else
            (case new_client rt k of
               Some e \<Rightarrow> Inl e
             | None \<Rightarrow>
                 (let fallback = (case labels_arg of
                                    None \<Rightarrow> default_labels
                                  | Some ls \<Rightarrow> if ls = [] then default_labels else ls);
                      loaded =
                        (if truthy config_file \<and> path_exists rt (case config_file of Some p \<Rightarrow> p | None \<Rightarrow> [])
                         then (case load_config rt (case config_file of Some p \<Rightarrow> p | None \<Rightarrow> []) of
                                 Inl e \<Rightarrow> Inl e
                               | Inr cfg \<Rightarrow>
                                   Inr (case cfg_labels cfg of Some ls \<Rightarrow> ls | None \<Rightarrow> fallback,
                                        case cfg_prompt_template cfg of
                                          Some t \<Rightarrow> t | None \<Rightarrow> default_prompt_template))
                         else Inr (fallback, default_prompt_template))
                  in case loaded of
                       Inl e \<Rightarrow> Inl e
                     | Inr (ls, t) \<Rightarrow>
                         if ls = [] \<or> length ls < 2 then
                           Inl (ValueError ''At least 2 labels are required for classification'')
                         else
                           Inr \<lparr>api_key = k, model = model_arg, labels = ls, prompt_template = t\<rparr>)))"

definition build_prompt :: "runtime \<Rightarrow> TextClassifier \<Rightarrow> string \<Rightarrow> exn + string" where
  "build_prompt rt self txt =
     str_format rt (prompt_template self) (join '', '' (labels self)) txt"

subsection \<open>Parsing the response\<close>

text \<open>Lines 117 to 126: strip, drop the opening and the closing marker, strip again.\<close>

definition strip_code_block :: "string \<Rightarrow> string" where
  "strip_code_block response_text =
     (let s1 = strip response_text;
          s2 = (if startswith s1 ''```json'' then drop 7 s1 else s1);
          s3 = (if startswith s2 ''```'' then drop 3 s2 else s2);
          s4 = (if endswith s3 ''```'' then take (length s3 - 3) s3 else s3)
      in strip s4)"

text \<open>\<open>"label" in result\<close>, \<open>result["label"]\<close> and \<open>result.get(k)\<close> on a decoded value.\<close>

fun py_contains :: "runtime \<Rightarrow> pyval \<Rightarrow> string \<Rightarrow> exn + bool" where
  "py_contains rt (PyDict kvs) k = Inr (map_of kvs k \<noteq> None)"
| "py_contains rt (PyList xs) k = Inr (PyStr k \<in> set xs)"
| "py_contains rt (PyStr s) k = Inr (str_contains s k)"
| "py_contains rt v k = Inl (OtherException (fault_str rt (NotContainer v)))"

fun py_getitem :: "runtime \<Rightarrow> pyval \<Rightarrow> string \<Rightarrow> exn + pyval" where
  "py_getitem rt (PyDict kvs) k =
     (case map_of kvs k of
        Some v \<Rightarrow> Inr v
      | None \<Rightarrow> Inl (OtherException (fault_str rt (NoKey k))))"
| "py_getitem rt v k = Inl (OtherException (fault_str rt (BadSubscript v)))"

fun py_get :: "runtime \<Rightarrow> pyval \<Rightarrow> string \<Rightarrow> exn + pyval" where
  "py_get rt (PyDict kvs) k = Inr (case map_of kvs k of Some v \<Rightarrow> v | None \<Rightarrow> PyNone)"
| "py_get rt v k = Inl (OtherException (fault_str rt (NoAttribute v ''get'')))"

text \<open>
  Lines 136 to 148: the label as it is, or the first configured label equal to it up
  to case, or \<open>ValueError\<close>. A value that is not a \<open>str\<close> is in no label list and
  has no \<open>lower\<close>.
\<close>

definition validate_label :: "runtime \<Rightarrow> TextClassifier \<Rightarrow> pyval \<Rightarrow> exn + string" where
  "validate_label rt self lab =
     (case lab of
        PyStr l \<Rightarrow>
          if l \<in> set (labels self) then Inr l
          else
            (let label_lower = lower l;
                 invalid = ValueError (''Invalid label '' @ [CHR 0x27] @ l @ [CHR 0x27] @
                                       ''. Must be one of: '' @ list_repr rt (labels self))
             in case find (\<lambda>m. lower m = label_lower) (labels self) of
                  Some matching_label \<Rightarrow>
                    if matching_label \<noteq> [] then Inr matching_label else Inl invalid
                | None \<Rightarrow> Inl invalid)
      | _ \<Rightarrow> Inl (OtherException (fault_str rt (NoAttribute lab ''lower''))))"

record parsed =
  parsed_label :: string
  parsed_confidence :: pyval
  parsed_rationale :: pyval

text \<open>The body of the \<open>try\<close> of \<open>_parse_response\<close>; \<open>None\<close> has no \<open>strip\<close>.\<close>

definition parse_try :: "runtime \<Rightarrow> TextClassifier \<Rightarrow> string option \<Rightarrow> exn + parsed" where
  "parse_try rt self response_text =
     (case response_text of
        None \<Rightarrow> Inl (OtherException (fault_str rt (NoAttribute PyNone ''strip'')))
      | Some s \<Rightarrow>
          (case json_loads rt (strip_code_block s) of
             Inl e \<Rightarrow> Inl e
           | Inr result \<Rightarrow>
               (case py_contains rt result ''label'' of
                  Inl e \<Rightarrow> Inl e
                | Inr present \<Rightarrow>
                    if \<not> present then Inl (ValueError ''Response missing 'label' field'')
                    else
                      (case py_getitem rt result ''label'' of
                         Inl e \<Rightarrow> Inl e
                       | Inr lab \<Rightarrow>
                           (case validate_label rt self lab of
                              Inl e \<Rightarrow> Inl e
                            | Inr l \<Rightarrow>
                                (case py_get rt result ''confidence'' of
                                   Inl e \<Rightarrow> Inl e
                                 | Inr c \<Rightarrow>
                                     (case py_get rt result ''rationale'' of
                                        Inl e \<Rightarrow> Inl e
                                      | Inr r \<Rightarrow>
                                          Inr \<lparr>parsed_label = l, parsed_confidence = c,
                                               parsed_rationale = r\<rparr>)))))))"

text \<open>The two handlers: every exception of the body leaves as a \<open>ValueError\<close>.\<close>

definition parse_response :: "runtime \<Rightarrow> TextClassifier \<Rightarrow> string option \<Rightarrow> exn + parsed" where
  "parse_response rt self response_text =
     (case parse_try rt self response_text of
        Inl (JSONDecodeError m) \<Rightarrow> Inl (ValueError (''Failed to parse JSON response: '' @ m))
      | Inl e \<Rightarrow> Inl (ValueError (''Error parsing response: '' @ str_exn e))
      | Inr p \<Rightarrow> Inr p)"

subsection \<open>Classifying\<close>

text \<open>
  The state is the list of requests sent to the completion service so far. The body
  of the \<open>try\<close> of \<open>classify\<close> gives the result or the exception, and the requests.
\<close>

definition classify_try ::
  "runtime \<Rightarrow> TextClassifier \<Rightarrow> request list \<Rightarrow> string
     \<Rightarrow> (exn + ClassificationResult) \<times> request list" where
  "classify_try rt self sent txt =
     (case build_prompt rt self txt of
        Inl e \<Rightarrow> (Inl e, sent)
      | Inr prompt \<Rightarrow>
          (let req = (model self, prompt); sent' = sent @ [req]
           in case complete rt sent req of
                Inl e \<Rightarrow> (Inl e, sent')
              | Inr response_text \<Rightarrow>
                  (case parse_response rt self response_text of
                     Inl e \<Rightarrow> (Inl e, sent')
                   | Inr p \<Rightarrow>
                       (Inr \<lparr>text_field = txt, predicted_label = parsed_label p,
                             confidence = parsed_confidence p,
                             rationale = parsed_rationale p, error = None\<rparr>, sent'))))"

definition classify ::
  "runtime \<Rightarrow> TextClassifier \<Rightarrow> request list \<Rightarrow> string
     \<Rightarrow> ClassificationResult \<times> request list" where
  "classify rt self sent txt =
     (if txt = [] \<or> strip txt = [] then
        (\<lparr>text_field = txt, predicted_label = ''Other'', confidence = PyNone,
          rationale = PyNone, error = Some ''Empty text provided''\<rparr>, sent)
      else
        (case classify_try rt self sent txt of
           (Inr r, sent') \<Rightarrow> (r, sent')
         | (Inl e, sent') \<Rightarrow>
             (\<lparr>text_field = txt, predicted_label = ''Other'', confidence = PyNone,
               rationale = PyNone, error = Some (str_exn e)\<rparr>, sent')))"

fun classify_loop ::
  "runtime \<Rightarrow> TextClassifier \<Rightarrow> ClassificationResult list \<Rightarrow> request list \<Rightarrow> string list
     \<Rightarrow> ClassificationResult list \<times> request list" where
  "classify_loop rt self results sent [] = (results, sent)"
| "classify_loop rt self results sent (txt # texts) =
     (case classify rt self sent txt of
        (result, sent') \<Rightarrow> classify_loop rt self (results @ [result]) sent' texts)"

definition classify_batch ::
  "runtime \<Rightarrow> TextClassifier \<Rightarrow> request list \<Rightarrow> string list
     \<Rightarrow> ClassificationResult list \<times> request list" where
  "classify_batch rt self sent texts = classify_loop rt self [] sent texts"

section \<open>A sample runtime\<close>

text \<open>
  A runtime to evaluate the classifier on. \<open>format_fields\<close> agrees with
  \<open>str.format\<close> on a template whose only braces are those of the fields
  \<open>{labels}\<close> and \<open>{text}\<close>; \<open>sample_loads\<close> agrees with \<open>json.loads\<close> on the
  strings it lists and on the strings used below that do not begin a JSON value;
  the messages are CPython's.
\<close>

function format_fields :: "string \<Rightarrow> string \<Rightarrow> string \<Rightarrow> string" where
  "format_fields [] l x = []"
| "format_fields (c # cs) l x =
     (if startswith (c # cs) ''{labels}'' then l @ format_fields (drop 7 cs) l x
      else if startswith (c # cs) ''{text}'' then x @ format_fields (drop 5 cs) l x
      else c # format_fields cs l x)"
  by pat_completeness auto
termination
  by (relation "measure (\<lambda>(t, l, x). length t)") auto

definition sample_loads :: "string \<Rightarrow> exn + pyval" where
  "sample_loads s =
     (if s = ''{\"label\":\"complaint\",\"confidence\":0.9}'' then
        Inr (PyDict [(''label'', PyStr ''complaint''),
                     (''confidence'', PyFloat 0x3FECCCCCCCCCCCCD)])
      else if s = ''{\"label\":\"complaint\",\"confidence\":0.9}```'' then
        Inl (JSONDecodeError ''Extra data: line 1 column 39 (char 38)'')
      else if s = ''{\"label\":\"Inquiry\",\"confidence\":1.5}'' then
        Inr (PyDict [(''label'', PyStr ''Inquiry''),
                     (''confidence'', PyFloat 0x3FF8000000000000)])
      else if s = ''{\"label\":\"Spam\"}'' then
        Inr (PyDict [(''label'', PyStr ''Spam'')])
      else if s = ''{\"label\":5}'' then
        Inr (PyDict [(''label'', PyInt 5)])
      else Inl (JSONDecodeError ''Expecting value: line 1 column 1 (char 0)''))"

definition type_name :: "pyval \<Rightarrow> string" where
  "type_name v =
     (case v of
        PyNone \<Rightarrow> ''NoneType'' | PyBool b \<Rightarrow> ''bool'' | PyInt i \<Rightarrow> ''int''
      | PyFloat f \<Rightarrow> ''float'' | PyStr s \<Rightarrow> ''str'' | PyList xs \<Rightarrow> ''list''
      | PyDict kvs \<Rightarrow> ''dict'')"

definition sample_fault_str :: "fault \<Rightarrow> string" where
  "sample_fault_str f =
     (case f of
        NoAttribute v a \<Rightarrow>
          [CHR 0x27] @ type_name v @ [CHR 0x27] @ '' object has no attribute '' @
          [CHR 0x27] @ a @ [CHR 0x27]
      | NotContainer v \<Rightarrow>
          ''argument of type '' @ [CHR 0x27] @ type_name v @ [CHR 0x27] @ '' is not iterable''
      | BadSubscript v \<Rightarrow>
          (case v of
             PyStr s \<Rightarrow> ''string indices must be integers, not 'str'' @ [CHR 0x27]
           | PyList xs \<Rightarrow> ''list indices must be integers or slices, not str''
           | _ \<Rightarrow> [CHR 0x27] @ type_name v @ [CHR 0x27] @ '' object is not subscriptable'')
      | NoKey k \<Rightarrow> [CHR 0x27] @ k @ [CHR 0x27])"

text \<open>
  The sample service answers by the prompt alone: a complaint for a text about a
  refund, prose that is no JSON for a text about hours, a connection error otherwise.
\<close>

definition sample_complete :: "request list \<Rightarrow> request \<Rightarrow> exn + string option" where
  "sample_complete sent req =
     (if str_contains (snd req) ''refund'' then
        Inr (Some ''```json{\"label\":\"complaint\",\"confidence\":0.9}```'')
      else if str_contains (snd req) ''hours'' then
        Inr (Some ''I think this is an inquiry.'')
      else Inl (OtherException ''Connection error.''))"

definition sample_runtime :: runtime where
  "sample_runtime =
     \<lparr>json_loads = sample_loads,
      str_format = (\<lambda>t l x. Inr (format_fields t l x)),
      list_repr = (\<lambda>ls. ''['' @ join '', '' (map (\<lambda>l. [CHR 0x27] @ l @ [CHR 0x27]) ls) @ '']''),
      fault_str = sample_fault_str,
      complete = sample_complete,
      getenv = (\<lambda>name. None),
      new_client = (\<lambda>k. None),
      path_exists = (\<lambda>p. False),
      load_config = (\<lambda>p. Inl (OtherException ''[Errno 2] No such file or directory''))\<rparr>"

definition sample_classifier :: TextClassifier where
  "sample_classifier =
     \<lparr>api_key = ''sk-test'', model = ''gpt-3.5-turbo'',
      labels = [''Complaint'', ''Inquiry''],
      prompt_template = ''Classify into one of {labels}: {text}''\<rparr>"

text \<open>The sample runtime with a configuration file that names a single label.\<close>

definition config_runtime :: runtime where
  "config_runtime =
     sample_runtime
       \<lparr>path_exists := (\<lambda>p. p = ''config.json''),
        load_config := (\<lambda>p. Inr \<lparr>cfg_labels = Some [''Spam''], cfg_prompt_template = None\<rparr>)\<rparr>"

section \<open>Whitespace and stripping\<close>

lemma strip_blank: "(\<forall>c\<in>set s. isspace c) \<Longrightarrow> strip s = []"
  by (auto simp: strip_def dest: set_dropWhileD)

lemma strip_Nil_iff: "strip s = [] \<longleftrightarrow> (\<forall>c\<in>set s. isspace c)"
proof
  assume "strip s = []"
  then have "dropWhile isspace (rev (dropWhile isspace s)) = []"
    by (simp add: strip_def)
  then have rest: "\<forall>c\<in>set (dropWhile isspace s). isspace c"
    by simp
  have "dropWhile isspace s = []"
  proof (cases "dropWhile isspace s")
    case Nil
    then show ?thesis .
  next
    case (Cons c cs)
    then have "\<not> isspace c"
      by (metis hd_dropWhile list.sel(1) list.distinct(1))
    with rest Cons show ?thesis by simp
  qed
  then show "\<forall>c\<in>set s. isspace c" by simp
qed (rule strip_blank)

lemma blank_iff: "(txt = [] \<or> strip txt = []) \<longleftrightarrow> (\<forall>c\<in>set txt. isspace c)"
  by (auto simp: strip_Nil_iff)

section \<open>The label of a parsed response\<close>

lemma validate_label_mem:
  "validate_label rt self lab = Inr l \<Longrightarrow> l \<in> set (labels self)"
  by (auto simp: validate_label_def Let_def find_Some_iff
           split: pyval.splits if_splits option.splits)

lemma parse_try_label:
  "parse_try rt self x = Inr p \<Longrightarrow> parsed_label p \<in> set (labels self)"
  by (auto simp: parse_try_def split: option.splits sum.splits if_splits
           dest: validate_label_mem)

lemma parse_response_Inr_iff:
  "parse_response rt self x = Inr p \<longleftrightarrow> parse_try rt self x = Inr p"
  by (auto simp: parse_response_def split: sum.splits exn.splits)

lemma parse_response_label:
  "parse_response rt self x = Inr p \<Longrightarrow> parsed_label p \<in> set (labels self)"
  by (simp add: parse_response_Inr_iff parse_try_label)

section \<open>The paths of classify\<close>

lemma classify_try_build_raises:
  "build_prompt rt self txt = Inl e \<Longrightarrow> classify_try rt self sent txt = (Inl e, sent)"
  by (simp add: classify_try_def)

lemma classify_try_remote_raises:
  "build_prompt rt self txt = Inr p \<Longrightarrow> complete rt sent (model self, p) = Inl e \<Longrightarrow>
     classify_try rt self sent txt = (Inl e, sent @ [(model self, p)])"
  by (simp add: classify_try_def)

lemma classify_try_parse_raises:
  "build_prompt rt self txt = Inr p \<Longrightarrow> complete rt sent (model self, p) = Inr c \<Longrightarrow>
     parse_response rt self c = Inl e \<Longrightarrow>
     classify_try rt self sent txt = (Inl e, sent @ [(model self, p)])"
  by (simp add: classify_try_def)

lemma classify_try_parsed:
  "build_prompt rt self txt = Inr p \<Longrightarrow> complete rt sent (model self, p) = Inr c \<Longrightarrow>
     parse_response rt self c = Inr q \<Longrightarrow>
     classify_try rt self sent txt =
       (Inr \<lparr>text_field = txt, predicted_label = parsed_label q,
             confidence = parsed_confidence q, rationale = parsed_rationale q,
             error = None\<rparr>, sent @ [(model self, p)])"
  by (simp add: classify_try_def)

lemma classify_try_Inr:
  "classify_try rt self sent txt = (Inr r, sent') \<Longrightarrow>
     error r = None \<and> predicted_label r \<in> set (labels self) \<and> text_field r = txt"
  by (auto simp: classify_try_def Let_def split: sum.splits dest: parse_response_label)

lemma classify_blank:
  "txt = [] \<or> strip txt = [] \<Longrightarrow>
     classify rt self sent txt =
       (\<lparr>text_field = txt, predicted_label = ''Other'', confidence = PyNone,
         rationale = PyNone, error = Some ''Empty text provided''\<rparr>, sent)"
  by (simp add: classify_def)

lemma classify_raised:
  "\<not> (txt = [] \<or> strip txt = []) \<Longrightarrow> classify_try rt self sent txt = (Inl e, sent') \<Longrightarrow>
     classify rt self sent txt =
       (\<lparr>text_field = txt, predicted_label = ''Other'', confidence = PyNone,
         rationale = PyNone, error = Some (str_exn e)\<rparr>, sent')"
  by (simp add: classify_def)

lemma classify_returned:
  "\<not> (txt = [] \<or> strip txt = []) \<Longrightarrow> classify_try rt self sent txt = (Inr r, sent') \<Longrightarrow>
     classify rt self sent txt = (r, sent')"
  by (simp add: classify_def)

lemma classify_result_shape:
  "(error (fst (classify rt self sent txt)) \<noteq> None \<and>
      predicted_label (fst (classify rt self sent txt)) = ''Other'') \<or>
   (error (fst (classify rt self sent txt)) = None \<and>
      predicted_label (fst (classify rt self sent txt)) \<in> set (labels self))"
proof (cases "txt = [] \<or> strip txt = []")
  case True
  then show ?thesis by (simp add: classify_blank)
next
  case False
  obtain out sent' where t: "classify_try rt self sent txt = (out, sent')"
    by (cases "classify_try rt self sent txt")
  show ?thesis
  proof (cases out)
    case (Inl e)
    with t False show ?thesis by (simp add: classify_raised)
  next
    case (Inr r)
    with t False classify_try_Inr[of rt self sent "txt" r sent'] show ?thesis
      by (simp add: classify_returned)
  qed
qed

section \<open>Sample evaluations\<close>

lemma sample_model: "model sample_classifier = ''gpt-3.5-turbo''"
  by (simp add: sample_classifier_def)

lemma sample_labels: "labels sample_classifier = [''Complaint'', ''Inquiry'']"
  by (simp add: sample_classifier_def)

lemma sample_prompt_hello:
  "build_prompt sample_runtime sample_classifier ''Hello'' =
     Inr ''Classify into one of Complaint, Inquiry: Hello''"
  by code_simp

lemma sample_prompt_hours:
  "build_prompt sample_runtime sample_classifier ''What are your hours?'' =
     Inr ''Classify into one of Complaint, Inquiry: What are your hours?''"
  by code_simp

lemma sample_prompt_refund:
  "build_prompt sample_runtime sample_classifier ''I want a refund'' =
     Inr ''Classify into one of Complaint, Inquiry: I want a refund''"
  by code_simp

lemma sample_complete_hello:
  "complete sample_runtime sent
     (''gpt-3.5-turbo'', ''Classify into one of Complaint, Inquiry: Hello'') =
   Inl (OtherException ''Connection error.'')"
  by (simp add: sample_runtime_def sample_complete_def startswith_def)

lemma sample_complete_hours:
  "complete sample_runtime sent
     (''gpt-3.5-turbo'', ''Classify into one of Complaint, Inquiry: What are your hours?'') =
   Inr (Some ''I think this is an inquiry.'')"
  by (simp add: sample_runtime_def sample_complete_def startswith_def)

lemma sample_complete_refund:
  "complete sample_runtime sent
     (''gpt-3.5-turbo'', ''Classify into one of Complaint, Inquiry: I want a refund'') =
   Inr (Some ''```json{\"label\":\"complaint\",\"confidence\":0.9}```'')"
  by (simp add: sample_runtime_def sample_complete_def startswith_def)

lemma sample_parse_prose:
  "parse_response sample_runtime sample_classifier (Some ''I think this is an inquiry.'') =
     Inl (ValueError ''Failed to parse JSON response: Expecting value: line 1 column 1 (char 0)'')"
  by code_simp

lemma sample_parse_fenced:
  "parse_response sample_runtime sample_classifier
     (Some ''```json{\"label\":\"complaint\",\"confidence\":0.9}```'') =
   Inr \<lparr>parsed_label = ''Complaint'', parsed_confidence = PyFloat 0x3FECCCCCCCCCCCCD,
        parsed_rationale = PyNone\<rparr>"
  by code_simp

lemma not_blank_hello: "\<not> (\<forall>c\<in>set ''Hello''. isspace c)"
  by (simp add: isspace_def)

lemma not_blank_hours: "\<not> (\<forall>c\<in>set ''What are your hours?''. isspace c)"
  by (simp add: isspace_def)

lemma not_blank_refund: "\<not> (\<forall>c\<in>set ''I want a refund''. isspace c)"
  by (simp add: isspace_def)

lemma blank_sample: "\<forall>c\<in>set [CHR '' '', CHR 0x09, CHR 0x0A]. isspace c"
  by (simp add: isspace_def)

section \<open>The results of classify\<close>

text \<open>
  C4. For every text that is empty or consists only of whitespace, \<open>classify\<close> returns
  at once the result with the fallback label \<open>Other\<close> and the error
  \<open>Empty text provided\<close>, and the list of requests sent to the completion service is
  the one it started with: the service is not called.
\<close>

theorem classify_empty_text:
  assumes "\<forall>c\<in>set txt. isspace c"
  shows "classify rt self sent txt =
           (\<lparr>text_field = txt, predicted_label = ''Other'', confidence = PyNone,
             rationale = PyNone, error = Some ''Empty text provided''\<rparr>, sent)"
  using assms by (simp add: classify_blank blank_iff)

theorem classify_empty_text_witness:
  "isspace (CHR '' '') \<and> isspace (CHR 0x09) \<and> isspace (CHR 0x0A) \<and>
   classify sample_runtime sample_classifier [(''gpt-3.5-turbo'', ''earlier'')]
       [CHR '' '', CHR 0x09, CHR 0x0A] =
     (\<lparr>text_field = [CHR '' '', CHR 0x09, CHR 0x0A], predicted_label = ''Other'',
       confidence = PyNone, rationale = PyNone, error = Some ''Empty text provided''\<rparr>,
      [(''gpt-3.5-turbo'', ''earlier'')]) \<and>
   classify sample_runtime sample_classifier [] [] =
     (\<lparr>text_field = [], predicted_label = ''Other'',
       confidence = PyNone, rationale = PyNone, error = Some ''Empty text provided''\<rparr>, [])"
  using classify_empty_text[OF blank_sample, of sample_runtime sample_classifier
          "[(''gpt-3.5-turbo'', ''earlier'')]"]
        classify_empty_text[of "[]" sample_runtime sample_classifier "[]"]
        blank_sample
  by simp

text \<open>
  C1. \<open>classify\<close> returns a result on every path, and every failure is a result that
  carries the message and the fallback label: for an empty or all-whitespace text the
  error is \<open>Empty text provided\<close>; for any other text, when rendering the prompt
  raises, when the completion service raises, or when parsing its answer raises, the
  error is the text of the exception; in each case the label is \<open>Other\<close> and the
  text is the input.
\<close>

theorem classify_failures_become_results:
  "(let r = fst (classify rt self sent txt);
        failed = (\<lambda>m. error r = Some m \<and> predicted_label r = ''Other'' \<and> text_field r = txt)
    in ((\<forall>c\<in>set txt. isspace c) \<longrightarrow> failed ''Empty text provided'') \<and>
       (\<not> (\<forall>c\<in>set txt. isspace c) \<longrightarrow>
          (\<forall>e. build_prompt rt self txt = Inl e \<longrightarrow> failed (str_exn e)) \<and>
          (\<forall>p e. build_prompt rt self txt = Inr p \<and>
                  complete rt sent (model self, p) = Inl e \<longrightarrow> failed (str_exn e)) \<and>
          (\<forall>p c e. build_prompt rt self txt = Inr p \<and>
                    complete rt sent (model self, p) = Inr c \<and>
                    parse_response rt self c = Inl e \<longrightarrow> failed (str_exn e))))"
proof (cases "\<forall>c\<in>set txt. isspace c")
  case True
  then have "txt = [] \<or> strip txt = []" by (simp add: blank_iff)
  from classify_blank[OF this] True show ?thesis by (simp add: Let_def)
next
  case False
  then have nb: "\<not> (txt = [] \<or> strip txt = [])" by (simp add: blank_iff)
  show ?thesis
    using False classify_raised[OF nb]
    by (auto simp: Let_def classify_try_build_raises classify_try_remote_raises
                   classify_try_parse_raises)
qed

theorem classify_failures_become_results_witness:
  "isspace (CHR '' '') \<and>
   error (fst (classify sample_runtime sample_classifier [] '' '')) = Some ''Empty text provided'' \<and>
   predicted_label (fst (classify sample_runtime sample_classifier [] '' '')) = ''Other'' \<and>
   build_prompt sample_runtime sample_classifier ''Hello'' =
     Inr ''Classify into one of Complaint, Inquiry: Hello'' \<and>
   complete sample_runtime [] (''gpt-3.5-turbo'', ''Classify into one of Complaint, Inquiry: Hello'') =
     Inl (OtherException ''Connection error.'') \<and>
   error (fst (classify sample_runtime sample_classifier [] ''Hello'')) = Some ''Connection error.'' \<and>
   predicted_label (fst (classify sample_runtime sample_classifier [] ''Hello'')) = ''Other'' \<and>
   build_prompt sample_runtime sample_classifier ''What are your hours?'' =
     Inr ''Classify into one of Complaint, Inquiry: What are your hours?'' \<and>
   complete sample_runtime []
       (''gpt-3.5-turbo'', ''Classify into one of Complaint, Inquiry: What are your hours?'') =
     Inr (Some ''I think this is an inquiry.'') \<and>
   parse_response sample_runtime sample_classifier (Some ''I think this is an inquiry.'') =
     Inl (ValueError ''Failed to parse JSON response: Expecting value: line 1 column 1 (char 0)'') \<and>
   error (fst (classify sample_runtime sample_classifier [] ''What are your hours?'')) =
     Some ''Failed to parse JSON response: Expecting value: line 1 column 1 (char 0)'' \<and>
   predicted_label (fst (classify sample_runtime sample_classifier [] ''What are your hours?'')) =
     ''Other''"
proof -
  have blank: "\<forall>c\<in>set '' ''. isspace c" by (simp add: isspace_def)
  have a: "error (fst (classify sample_runtime sample_classifier [] '' '')) =
             Some ''Empty text provided'' \<and>
           predicted_label (fst (classify sample_runtime sample_classifier [] '' '')) = ''Other''"
    using classify_failures_become_results[of sample_runtime sample_classifier "[]" "'' ''"] blank
    by (simp add: Let_def)
  have b: "error (fst (classify sample_runtime sample_classifier [] ''Hello'')) =
             Some ''Connection error.'' \<and>
           predicted_label (fst (classify sample_runtime sample_classifier [] ''Hello'')) = ''Other''"
    using classify_failures_become_results[of sample_runtime sample_classifier "[]" "''Hello''"]
          not_blank_hello sample_prompt_hello sample_complete_hello[of "[]"]
    by (simp add: Let_def sample_model)
  have c: "error (fst (classify sample_runtime sample_classifier [] ''What are your hours?'')) =
             Some ''Failed to parse JSON response: Expecting value: line 1 column 1 (char 0)'' \<and>
           predicted_label (fst (classify sample_runtime sample_classifier [] ''What are your hours?'')) =
             ''Other''"
    using classify_failures_become_results[of sample_runtime sample_classifier "[]"
            "''What are your hours?''"]
          not_blank_hours sample_prompt_hours sample_complete_hours[of "[]"] sample_parse_prose
    by (simp add: Let_def sample_model)
  show ?thesis
    using a b c sample_prompt_hello sample_complete_hello[of "[]"] sample_prompt_hours
          sample_complete_hours[of "[]"] sample_parse_prose
    by (simp add: isspace_def)
qed


lemma sample_error_hello:
  "error (fst (classify sample_runtime sample_classifier [] ''Hello'')) = Some ''Connection error.''"
  by code_simp

lemma sample_error_refund:
  "error (fst (classify sample_runtime sample_classifier [] ''I want a refund'')) = None"
  by code_simp

text \<open>
  C2. Every result of \<open>classify\<close> is of exactly one of two kinds: the error is set and
  the label is the fallback \<open>Other\<close>, or the error is absent and the label is one of the
  classifier's labels.
\<close>

theorem classify_result_kinds:
  "(let r = fst (classify rt self sent txt);
        failure = (error r \<noteq> None \<and> predicted_label r = ''Other'');
        success = (error r = None \<and> predicted_label r \<in> set (labels self))
    in (failure \<or> success) \<and> \<not> (failure \<and> success))"
  using classify_result_shape[of rt self sent "txt"] by (auto simp: Let_def)

theorem classify_result_kinds_witness:
  "error (fst (classify sample_runtime sample_classifier [] ''I want a refund'')) = None \<and>
   predicted_label (fst (classify sample_runtime sample_classifier [] ''I want a refund''))
     \<in> set (labels sample_classifier) \<and>
   error (fst (classify sample_runtime sample_classifier [] ''Hello'')) = Some ''Connection error.'' \<and>
   predicted_label (fst (classify sample_runtime sample_classifier [] ''Hello'')) = ''Other''"
  using classify_result_kinds[of sample_runtime sample_classifier "[]" "''I want a refund''"]
        classify_result_kinds[of sample_runtime sample_classifier "[]" "''Hello''"]
        sample_error_hello sample_error_refund
  by (simp add: Let_def)

text \<open>
  C10. The fallback does not follow the configured labels: a result of \<open>classify\<close>
  that carries an error has the literal label \<open>Other\<close>, so when \<open>Other\<close> is not among
  the classifier's labels, the label of such a result is not one of them.
\<close>

theorem fallback_label_is_Other:
  assumes "error (fst (classify rt self sent txt)) \<noteq> None"
  shows "predicted_label (fst (classify rt self sent txt)) = ''Other'' \<and>
         (''Other'' \<notin> set (labels self) \<longrightarrow>
            predicted_label (fst (classify rt self sent txt)) \<notin> set (labels self))"
  using assms classify_result_shape[of rt self sent "txt"] by auto

theorem fallback_label_is_Other_witness:
  "error (fst (classify sample_runtime sample_classifier [] ''Hello'')) = Some ''Connection error.'' \<and>
   labels sample_classifier = [''Complaint'', ''Inquiry''] \<and>
   predicted_label (fst (classify sample_runtime sample_classifier [] ''Hello'')) = ''Other'' \<and>
   predicted_label (fst (classify sample_runtime sample_classifier [] ''Hello''))
     \<notin> set (labels sample_classifier)"
  using fallback_label_is_Other[of sample_runtime sample_classifier "[]" "''Hello''"]
        sample_error_hello sample_labels
  by simp

section \<open>The batch loop\<close>

lemma classify_loop_acc:
  "classify_loop rt self acc sent texts =
     (acc @ fst (classify_loop rt self [] sent texts),
      snd (classify_loop rt self [] sent texts))"
proof (induction texts arbitrary: acc sent)
  case Nil
  show ?case by simp
next
  case (Cons t ts)
  obtain r s' where c: "classify rt self sent t = (r, s')"
    by (cases "classify rt self sent t")
  show ?case
    using Cons.IH[of "acc @ [r]" s'] Cons.IH[of "[r]" s'] c by simp
qed

lemma classify_batch_Nil: "classify_batch rt self sent [] = ([], sent)"
  by (simp add: classify_batch_def)

lemma classify_batch_Cons:
  "classify_batch rt self sent (t # ts) =
     (fst (classify rt self sent t) #
        fst (classify_batch rt self (snd (classify rt self sent t)) ts),
      snd (classify_batch rt self (snd (classify rt self sent t)) ts))"
proof -
  obtain r s' where c: "classify rt self sent t = (r, s')"
    by (cases "classify rt self sent t")
  show ?thesis
    using classify_loop_acc[of rt self "[r]" s' ts] c by (simp add: classify_batch_def)
qed

lemma classify_batch_append:
  "classify_batch rt self sent (xs @ ys) =
     (fst (classify_batch rt self sent xs) @
        fst (classify_batch rt self (snd (classify_batch rt self sent xs)) ys),
      snd (classify_batch rt self (snd (classify_batch rt self sent xs)) ys))"
  by (induction xs arbitrary: sent) (simp_all add: classify_batch_Nil classify_batch_Cons)

lemma classify_batch_length:
  "length (fst (classify_batch rt self sent texts)) = length texts"
  by (induction texts arbitrary: sent) (simp_all add: classify_batch_Nil classify_batch_Cons)

lemma classify_batch_nth:
  assumes "i < length texts"
  shows "fst (classify_batch rt self sent texts) ! i =
           fst (classify rt self (snd (classify_batch rt self sent (take i texts))) (texts ! i))"
proof -
  have split: "texts = take i texts @ (texts ! i # drop (Suc i) texts)"
    using assms by (simp add: id_take_nth_drop[symmetric])
  have len: "length (fst (classify_batch rt self sent (take i texts))) = i"
    using assms by (simp add: classify_batch_length)
  have "fst (classify_batch rt self sent (take i texts @ (texts ! i # drop (Suc i) texts))) ! i =
          fst (classify rt self (snd (classify_batch rt self sent (take i texts))) (texts ! i))"
    using len by (simp add: classify_batch_append classify_batch_Cons nth_append)
  with split show ?thesis by simp
qed

lemma classify_stateless:
  assumes "\<forall>h h' q. complete rt h q = complete rt h' q"
  shows "fst (classify rt self s txt) = fst (classify rt self s' txt)"
proof -
  have "complete rt s q = complete rt s' q" for q
    using assms by blast
  then have "fst (classify_try rt self s txt) = fst (classify_try rt self s' txt)"
    by (simp add: classify_try_def Let_def split: sum.splits)
  then show ?thesis
    by (auto simp: classify_def split: prod.splits sum.splits)
qed

lemma classify_batch_stateless:
  assumes "\<forall>h h' q. complete rt h q = complete rt h' q"
  shows "fst (classify_batch rt self sent texts) = map (\<lambda>t. fst (classify rt self s t)) texts"
proof (induction texts arbitrary: sent)
  case Nil
  show ?case by (simp add: classify_batch_Nil)
next
  case (Cons t ts)
  show ?case
    using Cons.IH[of "snd (classify rt self sent t)"]
          classify_stateless[OF assms, of self sent t s]
    by (simp add: classify_batch_Cons)
qed

text \<open>
  C3. \<open>classify_batch\<close> returns one result for each text, in order: the result at
  position \<open>i\<close> is the result of \<open>classify\<close> on the text at \<open>i\<close>, run after the
  requests of the texts before it. When the completion service answers by the request
  alone, the batch is \<open>classify\<close> applied to each text on its own, so no text has an
  effect on the result of another.
\<close>

theorem classify_batch_elementwise:
  "length (fst (classify_batch rt self sent texts)) = length texts \<and>
   (\<forall>i<length texts.
      fst (classify_batch rt self sent texts) ! i =
        fst (classify rt self (snd (classify_batch rt self sent (take i texts))) (texts ! i))) \<and>
   ((\<forall>h h' q. complete rt h q = complete rt h' q) \<longrightarrow>
      (\<forall>s. fst (classify_batch rt self sent texts) =
             map (\<lambda>t. fst (classify rt self s t)) texts))"
  using classify_batch_length classify_batch_nth classify_batch_stateless by blast

lemma sample_stateless: "complete sample_runtime h q = complete sample_runtime h' q"
  by (simp add: sample_runtime_def sample_complete_def)

lemma sample_result_refund:
  "fst (classify sample_runtime sample_classifier [] ''I want a refund'') =
     \<lparr>text_field = ''I want a refund'', predicted_label = ''Complaint'',
      confidence = PyFloat 0x3FECCCCCCCCCCCCD, rationale = PyNone, error = None\<rparr>"
  by code_simp

lemma sample_result_hello:
  "fst (classify sample_runtime sample_classifier [] ''Hello'') =
     \<lparr>text_field = ''Hello'', predicted_label = ''Other'',
      confidence = PyNone, rationale = PyNone, error = Some ''Connection error.''\<rparr>"
  by code_simp

lemma sample_result_blank:
  "fst (classify sample_runtime sample_classifier [] '' '') =
     \<lparr>text_field = '' '', predicted_label = ''Other'',
      confidence = PyNone, rationale = PyNone, error = Some ''Empty text provided''\<rparr>"
  by code_simp

theorem classify_batch_elementwise_witness:
  "(\<forall>h h' q. complete sample_runtime h q = complete sample_runtime h' q) \<and>
   length (fst (classify_batch sample_runtime sample_classifier []
                  [''Hello'', '' '', ''I want a refund''])) = 3 \<and>
   fst (classify_batch sample_runtime sample_classifier []
          [''Hello'', '' '', ''I want a refund'']) =
     [\<lparr>text_field = ''Hello'', predicted_label = ''Other'',
       confidence = PyNone, rationale = PyNone, error = Some ''Connection error.''\<rparr>,
      \<lparr>text_field = '' '', predicted_label = ''Other'',
       confidence = PyNone, rationale = PyNone, error = Some ''Empty text provided''\<rparr>,
      \<lparr>text_field = ''I want a refund'', predicted_label = ''Complaint'',
       confidence = PyFloat 0x3FECCCCCCCCCCCCD, rationale = PyNone, error = None\<rparr>]"
proof -
  let ?texts = "[''Hello'', '' '', ''I want a refund'']"
  note batch = classify_batch_elementwise[of sample_runtime sample_classifier "[]" ?texts]
  have stateless: "\<forall>h h' q. complete sample_runtime h q = complete sample_runtime h' q"
    using sample_stateless by blast
  from batch stateless
  have "fst (classify_batch sample_runtime sample_classifier [] ?texts) =
          map (\<lambda>t. fst (classify sample_runtime sample_classifier [] t)) ?texts"
    by blast
  then have results:
    "fst (classify_batch sample_runtime sample_classifier [] ?texts) =
       [\<lparr>text_field = ''Hello'', predicted_label = ''Other'',
         confidence = PyNone, rationale = PyNone, error = Some ''Connection error.''\<rparr>,
        \<lparr>text_field = '' '', predicted_label = ''Other'',
         confidence = PyNone, rationale = PyNone, error = Some ''Empty text provided''\<rparr>,
        \<lparr>text_field = ''I want a refund'', predicted_label = ''Complaint'',
         confidence = PyFloat 0x3FECCCCCCCCCCCCD, rationale = PyNone, error = None\<rparr>]"
    by (simp add: sample_result_refund sample_result_hello sample_result_blank)
  from batch have "length (fst (classify_batch sample_runtime sample_classifier [] ?texts)) = 3"
    by simp
  with stateless results show ?thesis by blast
qed

section \<open>Parsing a decoded object\<close>

lemma lower_Nil_iff: "lower l = [] \<longleftrightarrow> l = []"
  by (simp add: lower_def)

lemma validate_label_exact:
  "l \<in> set (labels self) \<Longrightarrow> validate_label rt self (PyStr l) = Inr l"
  by (simp add: validate_label_def)

lemma validate_label_folded:
  assumes "l \<notin> set (labels self)" and "find (\<lambda>m. lower m = lower l) (labels self) = Some m"
  shows "validate_label rt self (PyStr l) = Inr m"
proof -
  from assms(2) have m: "m \<in> set (labels self)" "lower m = lower l"
    by (auto simp: find_Some_iff)
  have "m \<noteq> []"
  proof
    assume "m = []"
    with m(2) have "l = []" by (simp add: lower_def)
    with \<open>m = []\<close> m(1) assms(1) show False by simp
  qed
  with assms show ?thesis by (simp add: validate_label_def Let_def)
qed

lemma validate_label_unknown:
  assumes "l \<notin> set (labels self)" and "find (\<lambda>m. lower m = lower l) (labels self) = None"
  shows "validate_label rt self (PyStr l) =
           Inl (ValueError (''Invalid label '' @ [CHR 0x27] @ l @ [CHR 0x27] @
                            ''. Must be one of: '' @ list_repr rt (labels self)))"
  using assms by (simp add: validate_label_def Let_def)

lemma validate_label_not_str:
  "(\<forall>l. lab \<noteq> PyStr l) \<Longrightarrow>
     validate_label rt self lab = Inl (OtherException (fault_str rt (NoAttribute lab ''lower'')))"
  by (cases lab) (simp_all add: validate_label_def)

lemma validate_label_not_decode_error:
  "validate_label rt self lab \<noteq> Inl (JSONDecodeError m)"
  by (auto simp: validate_label_def Let_def split: pyval.splits option.splits)

lemma parse_try_dict:
  assumes "json_loads rt (strip_code_block raw) = Inr (PyDict kvs)"
      and "map_of kvs ''label'' = Some lab"
  shows "parse_try rt self (Some raw) =
           (case validate_label rt self lab of
              Inl e \<Rightarrow> Inl e
            | Inr l \<Rightarrow>
                Inr \<lparr>parsed_label = l,
                     parsed_confidence = (case map_of kvs ''confidence'' of Some c \<Rightarrow> c | None \<Rightarrow> PyNone),
                     parsed_rationale = (case map_of kvs ''rationale'' of Some c \<Rightarrow> c | None \<Rightarrow> PyNone)\<rparr>)"
  using assms by (simp add: parse_try_def split: sum.splits)

lemma parse_response_dict:
  assumes "json_loads rt (strip_code_block raw) = Inr (PyDict kvs)"
      and "map_of kvs ''label'' = Some lab"
  shows "parse_response rt self (Some raw) =
           (case validate_label rt self lab of
              Inl e \<Rightarrow> Inl (ValueError (''Error parsing response: '' @ str_exn e))
            | Inr l \<Rightarrow>
                Inr \<lparr>parsed_label = l,
                     parsed_confidence = (case map_of kvs ''confidence'' of Some c \<Rightarrow> c | None \<Rightarrow> PyNone),
                     parsed_rationale = (case map_of kvs ''rationale'' of Some c \<Rightarrow> c | None \<Rightarrow> PyNone)\<rparr>)"
  using validate_label_not_decode_error[of rt self lab]
  by (auto simp: parse_response_def parse_try_dict[OF assms] split: sum.splits exn.splits)

lemma parse_try_Inr_dict:
  assumes "parse_try rt self (Some raw) = Inr q"
  shows "\<exists>kvs lab. json_loads rt (strip_code_block raw) = Inr (PyDict kvs) \<and>
                   map_of kvs ''label'' = Some lab"
proof -
  from assms obtain v where v: "json_loads rt (strip_code_block raw) = Inr v"
    by (auto simp: parse_try_def split: sum.splits)
  with assms obtain lab where "py_getitem rt v ''label'' = Inr lab"
    by (auto simp: parse_try_def split: sum.splits if_splits)
  then obtain kvs where "v = PyDict kvs" "map_of kvs ''label'' = Some lab"
    by (cases v) (auto split: option.splits)
  with v show ?thesis by blast
qed


lemma find_fold_exists:
  assumes "m \<in> set ls" and "lower m = lower l"
  shows "\<exists>m'. find (\<lambda>m. lower m = lower l) ls = Some m' \<and> m' \<in> set ls \<and> lower m' = lower l"
proof (cases "find (\<lambda>m. lower m = lower l) ls")
  case None
  with assms show ?thesis by (auto simp: find_None_iff)
next
  case (Some m')
  then show ?thesis by (auto simp: find_Some_iff)
qed

lemma find_fold_none:
  "(\<forall>m\<in>set ls. lower m \<noteq> lower l) \<Longrightarrow> find (\<lambda>m. lower m = lower l) ls = None"
  by (simp add: find_None_iff)

text \<open>Sample responses: stripping leaves them as they are, and what they decode to.\<close>

lemma sample_body_complaint:
  "json_loads sample_runtime (strip_code_block ''{\"label\":\"complaint\",\"confidence\":0.9}'') =
     Inr (PyDict [(''label'', PyStr ''complaint''),
                  (''confidence'', PyFloat 0x3FECCCCCCCCCCCCD)])"
  by code_simp

lemma sample_body_inquiry:
  "json_loads sample_runtime (strip_code_block ''{\"label\":\"Inquiry\",\"confidence\":1.5}'') =
     Inr (PyDict [(''label'', PyStr ''Inquiry''),
                  (''confidence'', PyFloat 0x3FF8000000000000)])"
  by code_simp

lemma sample_body_spam:
  "json_loads sample_runtime (strip_code_block ''{\"label\":\"Spam\"}'') =
     Inr (PyDict [(''label'', PyStr ''Spam'')])"
  by code_simp

lemma sample_body_number:
  "json_loads sample_runtime (strip_code_block ''{\"label\":5}'') =
     Inr (PyDict [(''label'', PyInt 5)])"
  by code_simp

lemma sample_fault_number:
  "fault_str sample_runtime (NoAttribute (PyInt 5) ''lower'') =
     [CHR 0x27] @ ''int'' @ [CHR 0x27] @ '' object has no attribute '' @
     [CHR 0x27] @ ''lower'' @ [CHR 0x27]"
  by (simp add: sample_runtime_def sample_fault_str_def type_name_def)

lemma strip_code_block_complaint:
  "strip_code_block ''{\"label\":\"complaint\",\"confidence\":0.9}'' =
     ''{\"label\":\"complaint\",\"confidence\":0.9}''"
  by code_simp

lemma sample_find_complaint:
  "find (\<lambda>m. lower m = lower ''complaint'') [''Complaint'', ''Inquiry''] = Some ''Complaint''"
  by code_simp

lemma sample_find_spam:
  "find (\<lambda>m. lower m = lower ''Spam'') [''Complaint'', ''Inquiry''] = None"
  by code_simp

lemma sample_list_repr:
  "list_repr sample_runtime [''Complaint'', ''Inquiry''] = ''['Complaint', 'Inquiry']''"
  by (simp add: sample_runtime_def)

text \<open>
  C5. For a response that decodes to an object whose label is a string: when the
  string is one of the classifier's labels, it is the parsed label; when it is not,
  and some label equals it up to case, the parsed label is the first such label of
  the list, in the list's own casing; when no label equals it up to case, parsing
  fails with the \<open>Invalid label\<close> error. In particular, with the labels
  \<open>Complaint\<close> and \<open>Inquiry\<close>, the response
  \<open>{"label":"complaint","confidence":0.9}\<close> is parsed to the label \<open>Complaint\<close>.
  A label that is not a string equals no label and has no \<open>lower\<close>: parsing fails
  for it as well, with the error of the interpreter.
\<close>

theorem label_matching:
  "(\<forall>raw kvs l.
      json_loads rt (strip_code_block raw) = Inr (PyDict kvs) \<and>
      map_of kvs ''label'' = Some (PyStr l) \<longrightarrow>
        (l \<in> set (labels self) \<longrightarrow>
           (\<exists>q. parse_response rt self (Some raw) = Inr q \<and> parsed_label q = l)) \<and>
        (l \<notin> set (labels self) \<and> (\<exists>m\<in>set (labels self). lower m = lower l) \<longrightarrow>
           (\<exists>q. parse_response rt self (Some raw) = Inr q \<and>
                parsed_label q \<in> set (labels self) \<and>
                lower (parsed_label q) = lower l \<and>
                find (\<lambda>m. lower m = lower l) (labels self) = Some (parsed_label q))) \<and>
        (l \<notin> set (labels self) \<and> (\<forall>m\<in>set (labels self). lower m \<noteq> lower l) \<longrightarrow>
           parse_response rt self (Some raw) =
             Inl (ValueError (''Error parsing response: Invalid label '' @ [CHR 0x27] @ l @
                              [CHR 0x27] @ ''. Must be one of: '' @
                              list_repr rt (labels self))))) \<and>
   (json_loads rt ''{\"label\":\"complaint\",\"confidence\":0.9}'' =
      Inr (PyDict [(''label'', PyStr ''complaint''),
                   (''confidence'', PyFloat 0x3FECCCCCCCCCCCCD)]) \<and>
    labels self = [''Complaint'', ''Inquiry''] \<longrightarrow>
      (\<exists>q. parse_response rt self (Some ''{\"label\":\"complaint\",\"confidence\":0.9}'') = Inr q \<and>
           parsed_label q = ''Complaint'')) \<and>
   (\<forall>raw kvs lab.
      json_loads rt (strip_code_block raw) = Inr (PyDict kvs) \<and>
      map_of kvs ''label'' = Some lab \<and> (\<forall>l. lab \<noteq> PyStr l) \<longrightarrow>
        parse_response rt self (Some raw) =
          Inl (ValueError (''Error parsing response: '' @
                           fault_str rt (NoAttribute lab ''lower''))))"
proof (intro conjI allI impI)
  fix raw kvs l
  assume d: "json_loads rt (strip_code_block raw) = Inr (PyDict kvs) \<and>
             map_of kvs ''label'' = Some (PyStr l)"
  note parsed = parse_response_dict[of rt raw kvs "PyStr l" self]
  {
    assume "l \<in> set (labels self)"
    with d parsed show "\<exists>q. parse_response rt self (Some raw) = Inr q \<and> parsed_label q = l"
      by (simp add: validate_label_exact)
  }
  {
    assume a: "l \<notin> set (labels self) \<and> (\<exists>m\<in>set (labels self). lower m = lower l)"
    then obtain m' where m': "find (\<lambda>m. lower m = lower l) (labels self) = Some m'"
        "m' \<in> set (labels self)" "lower m' = lower l"
      using find_fold_exists by blast
    with a have "validate_label rt self (PyStr l) = Inr m'"
      by (blast intro: validate_label_folded)
    with d parsed m'
    show "\<exists>q. parse_response rt self (Some raw) = Inr q \<and>
               parsed_label q \<in> set (labels self) \<and>
               lower (parsed_label q) = lower l \<and>
               find (\<lambda>m. lower m = lower l) (labels self) = Some (parsed_label q)"
      by simp
  }
  {
    assume a: "l \<notin> set (labels self) \<and> (\<forall>m\<in>set (labels self). lower m \<noteq> lower l)"
    then have "find (\<lambda>m. lower m = lower l) (labels self) = None"
      by (simp add: find_fold_none)
    with a have "validate_label rt self (PyStr l) =
                   Inl (ValueError (''Invalid label '' @ [CHR 0x27] @ l @ [CHR 0x27] @
                                    ''. Must be one of: '' @ list_repr rt (labels self)))"
      by (simp add: validate_label_unknown)
    with d parsed
    show "parse_response rt self (Some raw) =
            Inl (ValueError (''Error parsing response: Invalid label '' @ [CHR 0x27] @ l @
                             [CHR 0x27] @ ''. Must be one of: '' @
                             list_repr rt (labels self)))"
      by simp
  }
next
  assume e: "json_loads rt ''{\"label\":\"complaint\",\"confidence\":0.9}'' =
               Inr (PyDict [(''label'', PyStr ''complaint''),
                            (''confidence'', PyFloat 0x3FECCCCCCCCCCCCD)]) \<and>
             labels self = [''Complaint'', ''Inquiry'']"
  then have ls: "labels self = [''Complaint'', ''Inquiry'']" by simp
  have "''complaint'' \<notin> set (labels self)"
    by (simp add: ls)
  moreover have "find (\<lambda>m. lower m = lower ''complaint'') (labels self) = Some ''Complaint''"
    by (simp only: ls sample_find_complaint)
  ultimately have "validate_label rt self (PyStr ''complaint'') = Inr ''Complaint''"
    by (rule validate_label_folded)
  with e parse_response_dict[of rt "''{\"label\":\"complaint\",\"confidence\":0.9}''"
         "[(''label'', PyStr ''complaint''), (''confidence'', PyFloat 0x3FECCCCCCCCCCCCD)]"
         "PyStr ''complaint''" self]
  show "\<exists>q. parse_response rt self (Some ''{\"label\":\"complaint\",\"confidence\":0.9}'') = Inr q \<and>
            parsed_label q = ''Complaint''"
    by (simp add: strip_code_block_complaint)
next
  fix raw kvs lab
  assume n: "json_loads rt (strip_code_block raw) = Inr (PyDict kvs) \<and>
             map_of kvs ''label'' = Some lab \<and> (\<forall>l. lab \<noteq> PyStr l)"
  then have "validate_label rt self lab =
               Inl (OtherException (fault_str rt (NoAttribute lab ''lower'')))"
    by (simp add: validate_label_not_str)
  with n parse_response_dict[of rt raw kvs lab self]
  show "parse_response rt self (Some raw) =
          Inl (ValueError (''Error parsing response: '' @
                           fault_str rt (NoAttribute lab ''lower'')))"
    by simp
qed


lemma sample_loads_complaint:
  "json_loads sample_runtime ''{\"label\":\"complaint\",\"confidence\":0.9}'' =
     Inr (PyDict [(''label'', PyStr ''complaint''),
                  (''confidence'', PyFloat 0x3FECCCCCCCCCCCCD)])"
  by code_simp

lemma sample_no_fold_spam: "\<forall>m\<in>set (labels sample_classifier). lower m \<noteq> lower ''Spam''"
  by code_simp

lemma sample_spam_not_label: "''Spam'' \<notin> set (labels sample_classifier)"
  by (simp add: sample_labels)

lemma sample_inquiry_label: "''Inquiry'' \<in> set (labels sample_classifier)"
  by (simp add: sample_labels)

theorem label_matching_witness:
  "json_loads sample_runtime ''{\"label\":\"complaint\",\"confidence\":0.9}'' =
     Inr (PyDict [(''label'', PyStr ''complaint''),
                  (''confidence'', PyFloat 0x3FECCCCCCCCCCCCD)]) \<and>
   labels sample_classifier = [''Complaint'', ''Inquiry''] \<and>
   (\<exists>q. parse_response sample_runtime sample_classifier
           (Some ''{\"label\":\"complaint\",\"confidence\":0.9}'') = Inr q \<and>
        parsed_label q = ''Complaint'') \<and>
   (\<exists>q. parse_response sample_runtime sample_classifier
           (Some ''{\"label\":\"Inquiry\",\"confidence\":1.5}'') = Inr q \<and>
        parsed_label q = ''Inquiry'') \<and>
   parse_response sample_runtime sample_classifier (Some ''{\"label\":\"Spam\"}'') =
     Inl (ValueError
           ''Error parsing response: Invalid label 'Spam'. Must be one of: ['Complaint', 'Inquiry']'') \<and>
   parse_response sample_runtime sample_classifier (Some ''{\"label\":5}'') =
     Inl (ValueError (''Error parsing response: 'int' object has no attribute 'lower'' @
                      [CHR 0x27]))"
proof -
  note matching = label_matching[of sample_runtime sample_classifier]
  note general = matching[THEN conjunct1, rule_format]
  have folded:
    "\<exists>q. parse_response sample_runtime sample_classifier
            (Some ''{\"label\":\"complaint\",\"confidence\":0.9}'') = Inr q \<and>
         parsed_label q = ''Complaint''"
    using matching[THEN conjunct2, THEN conjunct1] sample_loads_complaint sample_labels
    by blast
  have exact:
    "\<exists>q. parse_response sample_runtime sample_classifier
            (Some ''{\"label\":\"Inquiry\",\"confidence\":1.5}'') = Inr q \<and>
         parsed_label q = ''Inquiry''"
    using general[of "''{\"label\":\"Inquiry\",\"confidence\":1.5}''"
            "[(''label'', PyStr ''Inquiry''), (''confidence'', PyFloat 0x3FF8000000000000)]"
            "''Inquiry''", THEN conjunct1]
          sample_body_inquiry sample_inquiry_label
    by simp
  have unknown:
    "parse_response sample_runtime sample_classifier (Some ''{\"label\":\"Spam\"}'') =
       Inl (ValueError (''Error parsing response: Invalid label '' @ [CHR 0x27] @ ''Spam'' @
                        [CHR 0x27] @ ''. Must be one of: '' @
                        list_repr sample_runtime (labels sample_classifier)))"
    using general[of "''{\"label\":\"Spam\"}''" "[(''label'', PyStr ''Spam'')]" "''Spam''",
            THEN conjunct2, THEN conjunct2]
          sample_body_spam sample_spam_not_label sample_no_fold_spam
    by simp
  have number:
    "parse_response sample_runtime sample_classifier (Some ''{\"label\":5}'') =
       Inl (ValueError (''Error parsing response: '' @
                        fault_str sample_runtime (NoAttribute (PyInt 5) ''lower'')))"
    using matching[THEN conjunct2, THEN conjunct2, rule_format,
            of "''{\"label\":5}''" "[(''label'', PyInt 5)]" "PyInt 5"]
          sample_body_number
    by simp
  show ?thesis
    using folded exact unknown number sample_loads_complaint
    by (simp add: sample_labels sample_list_repr sample_fault_number)
qed


text \<open>
  C9. The confidence and the rationale of a parsed response are the values of the
  decoded object under \<open>confidence\<close> and \<open>rationale\<close>, whatever they are, and
  \<open>None\<close> for a key that is absent; a decoded object with a valid label is parsed
  whatever these two values are, so none is clamped or rejected; and \<open>classify\<close>
  puts the two parsed values into its result unchanged.
\<close>

theorem confidence_rationale_pass_through:
  "(\<forall>q. parse_response rt self (Some raw) = Inr q \<longrightarrow>
      (\<exists>kvs. json_loads rt (strip_code_block raw) = Inr (PyDict kvs) \<and>
             parsed_confidence q = (case map_of kvs ''confidence'' of Some c \<Rightarrow> c | None \<Rightarrow> PyNone) \<and>
             parsed_rationale q = (case map_of kvs ''rationale'' of Some c \<Rightarrow> c | None \<Rightarrow> PyNone))) \<and>
   (\<forall>kvs lab l.
      json_loads rt (strip_code_block raw) = Inr (PyDict kvs) \<and>
      map_of kvs ''label'' = Some lab \<and> validate_label rt self lab = Inr l \<longrightarrow>
        parse_response rt self (Some raw) =
          Inr \<lparr>parsed_label = l,
               parsed_confidence = (case map_of kvs ''confidence'' of Some c \<Rightarrow> c | None \<Rightarrow> PyNone),
               parsed_rationale = (case map_of kvs ''rationale'' of Some c \<Rightarrow> c | None \<Rightarrow> PyNone)\<rparr>) \<and>
   (\<forall>q sent txt p.
      \<not> (\<forall>c\<in>set txt. isspace c) \<and> build_prompt rt self txt = Inr p \<and>
      complete rt sent (model self, p) = Inr (Some raw) \<and>
      parse_response rt self (Some raw) = Inr q \<longrightarrow>
        confidence (fst (classify rt self sent txt)) = parsed_confidence q \<and>
        rationale (fst (classify rt self sent txt)) = parsed_rationale q \<and>
        error (fst (classify rt self sent txt)) = None)"
proof -
  have decoded:
    "\<exists>kvs. json_loads rt (strip_code_block raw) = Inr (PyDict kvs) \<and>
          parsed_confidence q = (case map_of kvs ''confidence'' of Some c \<Rightarrow> c | None \<Rightarrow> PyNone) \<and>
          parsed_rationale q = (case map_of kvs ''rationale'' of Some c \<Rightarrow> c | None \<Rightarrow> PyNone)"
    if p: "parse_response rt self (Some raw) = Inr q" for q
  proof -
    from p have t: "parse_try rt self (Some raw) = Inr q"
      by (simp add: parse_response_Inr_iff)
    then obtain kvs lab where d: "json_loads rt (strip_code_block raw) = Inr (PyDict kvs)"
        "map_of kvs ''label'' = Some lab"
      using parse_try_Inr_dict by blast
    from t parse_try_dict[OF d, of self]
    have "parsed_confidence q = (case map_of kvs ''confidence'' of Some c \<Rightarrow> c | None \<Rightarrow> PyNone) \<and>
          parsed_rationale q = (case map_of kvs ''rationale'' of Some c \<Rightarrow> c | None \<Rightarrow> PyNone)"
      by (auto split: sum.splits)
    with d(1) show ?thesis by blast
  qed
  have accepted:
    "parse_response rt self (Some raw) =
       Inr \<lparr>parsed_label = l,
            parsed_confidence = (case map_of kvs ''confidence'' of Some c \<Rightarrow> c | None \<Rightarrow> PyNone),
            parsed_rationale = (case map_of kvs ''rationale'' of Some c \<Rightarrow> c | None \<Rightarrow> PyNone)\<rparr>"
    if "json_loads rt (strip_code_block raw) = Inr (PyDict kvs) \<and>
        map_of kvs ''label'' = Some lab \<and> validate_label rt self lab = Inr l" for kvs lab l
    using that parse_response_dict[of rt raw kvs lab self] by simp
  have carried:
    "confidence (fst (classify rt self sent t)) = parsed_confidence q \<and>
     rationale (fst (classify rt self sent t)) = parsed_rationale q \<and>
     error (fst (classify rt self sent t)) = None"
    if a: "\<not> (\<forall>c\<in>set t. isspace c) \<and> build_prompt rt self t = Inr p \<and>
           complete rt sent (model self, p) = Inr (Some raw) \<and>
           parse_response rt self (Some raw) = Inr q" for q sent t p
  proof -
    from a have nb: "\<not> (t = [] \<or> strip t = [])" by (simp add: blank_iff)
    from a have "classify_try rt self sent t =
         (Inr \<lparr>text_field = t, predicted_label = parsed_label q,
               confidence = parsed_confidence q, rationale = parsed_rationale q,
               error = None\<rparr>, sent @ [(model self, p)])"
      by (simp add: classify_try_parsed)
    from classify_returned[OF nb this] show ?thesis by simp
  qed
  from decoded accepted carried show ?thesis by blast
qed

lemma sample_validate_inquiry:
  "validate_label sample_runtime sample_classifier (PyStr ''Inquiry'') = Inr ''Inquiry''"
  by (simp add: validate_label_exact sample_inquiry_label)

theorem confidence_rationale_pass_through_witness:
  "json_loads sample_runtime (strip_code_block ''{\"label\":\"Inquiry\",\"confidence\":1.5}'') =
     Inr (PyDict [(''label'', PyStr ''Inquiry''),
                  (''confidence'', PyFloat 0x3FF8000000000000)]) \<and>
   validate_label sample_runtime sample_classifier (PyStr ''Inquiry'') = Inr ''Inquiry'' \<and>
   parse_response sample_runtime sample_classifier
       (Some ''{\"label\":\"Inquiry\",\"confidence\":1.5}'') =
     Inr \<lparr>parsed_label = ''Inquiry'', parsed_confidence = PyFloat 0x3FF8000000000000,
          parsed_rationale = PyNone\<rparr> \<and>
   parse_response sample_runtime sample_classifier
       (Some ''```json{\"label\":\"complaint\",\"confidence\":0.9}```'') =
     Inr \<lparr>parsed_label = ''Complaint'', parsed_confidence = PyFloat 0x3FECCCCCCCCCCCCD,
          parsed_rationale = PyNone\<rparr> \<and>
   confidence (fst (classify sample_runtime sample_classifier [] ''I want a refund'')) =
     PyFloat 0x3FECCCCCCCCCCCCD \<and>
   rationale (fst (classify sample_runtime sample_classifier [] ''I want a refund'')) = PyNone"
proof -
  note through =
    confidence_rationale_pass_through[of sample_runtime sample_classifier
      "''{\"label\":\"Inquiry\",\"confidence\":1.5}''"]
  note through' =
    confidence_rationale_pass_through[of sample_runtime sample_classifier
      "''```json{\"label\":\"complaint\",\"confidence\":0.9}```''"]
  have a: "parse_response sample_runtime sample_classifier
             (Some ''{\"label\":\"Inquiry\",\"confidence\":1.5}'') =
           Inr \<lparr>parsed_label = ''Inquiry'', parsed_confidence = PyFloat 0x3FF8000000000000,
                parsed_rationale = PyNone\<rparr>"
    using through[THEN conjunct2, THEN conjunct1, rule_format,
            of "[(''label'', PyStr ''Inquiry''), (''confidence'', PyFloat 0x3FF8000000000000)]"
               "PyStr ''Inquiry''" "''Inquiry''"]
          sample_body_inquiry sample_validate_inquiry
    by simp
  have b: "confidence (fst (classify sample_runtime sample_classifier [] ''I want a refund'')) =
             PyFloat 0x3FECCCCCCCCCCCCD \<and>
           rationale (fst (classify sample_runtime sample_classifier [] ''I want a refund'')) = PyNone"
    using through'[THEN conjunct2, THEN conjunct2, rule_format,
            of "''I want a refund''" "''Classify into one of Complaint, Inquiry: I want a refund''"
               "[]" "\<lparr>parsed_label = ''Complaint'', parsed_confidence = PyFloat 0x3FECCCCCCCCCCCCD,
                       parsed_rationale = PyNone\<rparr>"]
          not_blank_refund sample_prompt_refund sample_complete_refund[of "[]"] sample_parse_fenced
    by (simp add: sample_model)
  show ?thesis
    using a b sample_body_inquiry sample_validate_inquiry sample_parse_fenced by simp
qed

section \<open>Stripping and the code block markers\<close>

lemma strip_fixed:
  assumes "s \<noteq> []" and "\<not> isspace (hd s)" and "\<not> isspace (last s)"
  shows "strip s = s"
proof -
  from assms have "dropWhile isspace s = s"
    by (simp add: dropWhile_eq_self_iff)
  moreover from assms have "dropWhile isspace (rev s) = rev s"
    by (simp add: dropWhile_eq_self_iff hd_rev)
  ultimately show ?thesis by (simp add: strip_def)
qed

lemma last_dropWhile_kept:
  assumes "dropWhile P xs \<noteq> []"
  shows "last (dropWhile P xs) = last xs"
proof -
  have "xs = takeWhile P xs @ dropWhile P xs" by simp
  then have "last xs = last (takeWhile P xs @ dropWhile P xs)" by simp
  also have "\<dots> = last (dropWhile P xs)" using assms by (simp del: takeWhile_dropWhile_id)
  finally show ?thesis by simp
qed

lemma strip_ends:
  assumes "strip s \<noteq> []"
  shows "\<not> isspace (hd (strip s))" and "\<not> isspace (last (strip s))"
proof -
  let ?a = "dropWhile isspace s"
  let ?b = "dropWhile isspace (rev ?a)"
  from assms have b: "?b \<noteq> []" by (simp add: strip_def)
  have a: "?a \<noteq> []"
  proof
    assume "?a = []"
    then have "?b = []" by (simp del: dropWhile_eq_Nil_conv)
    with b show False by contradiction
  qed
  from b have "\<not> isspace (hd ?b)" by (rule hd_dropWhile)
  with b show "\<not> isspace (last (strip s))" by (simp add: strip_def last_rev)
  from b have "last ?b = last (rev ?a)" by (rule last_dropWhile_kept)
  also from a have "\<dots> = hd ?a" by (simp add: last_rev)
  finally have "hd (strip s) = hd ?a" using b by (simp add: strip_def hd_rev)
  moreover from a have "\<not> isspace (hd ?a)" by (rule hd_dropWhile)
  ultimately show "\<not> isspace (hd (strip s))" by simp
qed

lemma strip_idem: "strip (strip s) = strip s"
proof (cases "strip s = []")
  case True
  have "strip [] = []" by (simp add: strip_def)
  with True show ?thesis by simp
next
  case False
  then show ?thesis by (simp add: strip_fixed strip_ends)
qed

lemma strip_leading:
  assumes "\<forall>c\<in>set w. isspace c"
  shows "strip (w @ s) = strip s"
proof -
  have "dropWhile isspace (w @ s) = dropWhile isspace s"
    using assms by (intro dropWhile_append2) auto
  then show ?thesis by (simp add: strip_def)
qed

lemma strip_trailing:
  assumes "\<forall>c\<in>set w. isspace c"
  shows "strip (s @ w) = strip s"
proof (cases "\<forall>c\<in>set s. isspace c")
  case True
  with assms have "\<forall>c\<in>set (s @ w). isspace c" by auto
  then have "strip (s @ w) = []" by (rule strip_blank)
  with True show ?thesis by (simp add: strip_blank)
next
  case False
  then obtain x where "x \<in> set s" "\<not> isspace x" by blast
  then have "dropWhile isspace (s @ w) = dropWhile isspace s @ w"
    by (simp add: dropWhile_append1)
  moreover have "dropWhile isspace (rev w @ ys) = dropWhile isspace ys" for ys
    using assms by (intro dropWhile_append2) auto
  ultimately show ?thesis by (simp add: strip_def)
qed

lemma strip_padded:
  assumes "\<forall>c\<in>set w1. isspace c" and "\<forall>c\<in>set w2. isspace c"
  shows "strip (w1 @ s @ w2) = strip s"
  using assms by (simp add: strip_leading strip_trailing)

lemma strip_keeps_prefix:
  assumes "p \<noteq> []" and "\<forall>c\<in>set p. \<not> isspace c"
  shows "\<exists>r'. strip (p @ r) = p @ r'"
proof -
  from assms have "\<not> isspace (hd p)" by (cases p) auto
  with assms have d: "dropWhile isspace (p @ r) = p @ r"
    by (simp add: dropWhile_eq_self_iff)
  from assms obtain x where "x \<in> set (rev p)" "\<not> isspace x" by (cases p) auto
  then have "dropWhile isspace (rev r @ rev p) = dropWhile isspace (rev r) @ rev p
             \<or> dropWhile isspace (rev r @ rev p) = dropWhile isspace (rev p)"
    by (cases "\<forall>c\<in>set (rev r). isspace c")
       (auto simp: dropWhile_append2 dropWhile_append1 simp del: set_rev)
  moreover from assms have "dropWhile isspace (rev p) = rev p"
    by (cases p rule: rev_cases) auto
  ultimately have "strip (p @ r) = p @ rev (dropWhile isspace (rev r)) \<or> strip (p @ r) = p"
    using d by (auto simp: strip_def)
  then show ?thesis by auto
qed


lemma startswith_iff: "startswith t p \<longleftrightarrow> (\<exists>r. t = p @ r)"
proof
  assume "startswith t p"
  then have "t = p @ drop (length p) t"
    by (metis append_take_drop_id startswith_def)
  then show "\<exists>r. t = p @ r" ..
next
  assume "\<exists>r. t = p @ r"
  then show "startswith t p" by (auto simp: startswith_def)
qed

lemma startswith_shorter:
  assumes "startswith t ''```json''"
  shows "startswith t ''```''"
proof -
  from assms obtain r where "t = ''```json'' @ r" by (auto simp: startswith_iff)
  then have "t = ''```'' @ (''json'' @ r)" by simp
  then show ?thesis unfolding startswith_iff by (rule exI)
qed

lemma strip_code_block_plain:
  assumes "\<not> startswith (strip s) ''```''" and "\<not> endswith (strip s) ''```''"
  shows "strip_code_block s = strip s"
proof -
  from assms(1) have "\<not> startswith (strip s) ''```json''"
    using startswith_shorter by blast
  with assms show ?thesis by (simp add: strip_code_block_def strip_idem)
qed

lemma startswith_append_foreign:
  assumes "startswith (a @ b) p" and "\<forall>c\<in>set b. c \<notin> set p"
  shows "startswith a p"
proof (cases "length p \<le> length a")
  case True
  with assms(1) show ?thesis by (simp add: startswith_def)
next
  case False
  from assms(1) have p: "p = a @ take (length p - length a) b"
    using False by (simp add: startswith_def)
  have "take (length p - length a) b \<noteq> []"
  proof
    assume "take (length p - length a) b = []"
    with p have "p = a" by simp
    with False show False by simp
  qed
  then obtain c cs where c: "take (length p - length a) b = c # cs"
    by (cases "take (length p - length a) b") auto
  then have "c \<in> set (take (length p - length a) b)" by simp
  then have "c \<in> set b" by (rule in_set_takeD)
  moreover from p c have "p = a @ c # cs" by simp
  then have "c \<in> set p" by simp
  ultimately show ?thesis using assms(2) by blast
qed

lemma fence_prefix_of_short:
  assumes "startswith (u @ ''```'') ''```''" and "\<not> startswith u ''```''"
  shows "drop 3 (u @ ''```'') = u \<and> \<not> endswith u ''```''"
proof -
  from assms(1) obtain r where r: "u @ ''```'' = ''```'' @ r"
    by (auto simp: startswith_iff)
  show ?thesis
  proof (cases u)
    case Nil
    then show ?thesis by (simp add: endswith_def)
  next
    case u1: (Cons a u1)
    with r have a: "a = CHR 0x60" by simp
    show ?thesis
    proof (cases u1)
      case Nil
      with u1 a have "u = [CHR 0x60]" by simp
      then show ?thesis by (simp add: endswith_def)
    next
      case u2: (Cons b u2)
      with u1 r have b: "b = CHR 0x60" by simp
      show ?thesis
      proof (cases u2)
        case Nil
        with u1 u2 a b have "u = [CHR 0x60, CHR 0x60]" by simp
        then show ?thesis by (simp add: endswith_def)
      next
        case (Cons c u3)
        with u1 u2 r have "c = CHR 0x60" by simp
        with u1 u2 Cons a b have "u = ''```'' @ u3" by simp
        then have "startswith u ''```''" unfolding startswith_iff by (rule exI)
        with assms(2) show ?thesis by contradiction
      qed
    qed
  qed
qed

lemma padded_no_fence:
  assumes "\<not> startswith (strip s) ''```''"
      and "\<forall>c\<in>set w1. isspace c" and "\<forall>c\<in>set w2. isspace c"
  shows "\<not> startswith (w1 @ s @ w2) ''```''"
proof
  assume "startswith (w1 @ s @ w2) ''```''"
  then obtain r where r: "w1 @ s @ w2 = ''```'' @ r" by (auto simp: startswith_iff)
  have "\<exists>r'. strip (''```'' @ r) = ''```'' @ r'"
    by (rule strip_keeps_prefix) (simp_all add: isspace_def)
  then obtain r' where "strip (''```'' @ r) = ''```'' @ r'" ..
  with r have "strip (w1 @ s @ w2) = ''```'' @ r'" by simp
  with assms(2,3) have "strip s = ''```'' @ r'" by (simp add: strip_padded)
  then have "startswith (strip s) ''```''" unfolding startswith_iff by (rule exI)
  with assms(1) show False by contradiction
qed

lemma strip_code_block_tagged:
  assumes "\<not> startswith (strip s) ''```''"
      and "\<forall>c\<in>set w1. isspace c" and "\<forall>c\<in>set w2. isspace c"
  shows "strip_code_block (''```json'' @ w1 @ s @ w2 @ ''```'') = strip s"
proof -
  let ?u = "w1 @ s @ w2"
  let ?x = "''```json'' @ ?u @ ''```''"
  have x: "strip ?x = ?x"
    by (rule strip_fixed) (simp_all add: isspace_def)
  have tag: "startswith ?x ''```json''" "drop 7 ?x = ?u @ ''```''"
    by (simp_all add: startswith_def)
  have u: "\<not> startswith ?u ''```''"
    using assms by (rule padded_no_fence)
  have tail: "endswith (?u @ ''```'') ''```''"
             "take (length (?u @ ''```'') - 3) (?u @ ''```'') = ?u"
    by (simp_all add: endswith_def)
  have "strip_code_block ?x = strip ?u"
  proof (cases "startswith (?u @ ''```'') ''```''")
    case True
    from fence_prefix_of_short[OF True u] x tag True show ?thesis
      by (simp add: strip_code_block_def)
  next
    case False
    with x tag tail show ?thesis
      by (simp add: strip_code_block_def)
  qed
  with assms(2,3) show ?thesis by (simp add: strip_padded)
qed

lemma space_not_json: "isspace c \<Longrightarrow> c \<notin> set ''json''"
  by (auto simp: isspace_def)

lemma strip_code_block_untagged:
  assumes "\<not> startswith (w1 @ s) ''json''"
      and "\<forall>c\<in>set w1. isspace c" and "\<forall>c\<in>set w2. isspace c"
  shows "strip_code_block (''```'' @ w1 @ s @ w2 @ ''```'') = strip s"
proof -
  let ?u = "w1 @ s @ w2"
  let ?x = "''```'' @ ?u @ ''```''"
  have x: "strip ?x = ?x"
    by (rule strip_fixed) (simp_all add: isspace_def)
  have foreign: "\<forall>c\<in>set (w2 @ ''```''). c \<notin> set ''json''"
    using assms(3) space_not_json by fastforce
  have notag: "\<not> startswith ?x ''```json''"
  proof
    assume "startswith ?x ''```json''"
    then obtain r where "?x = ''```json'' @ r"
      unfolding startswith_iff ..
    then have "(w1 @ s) @ (w2 @ ''```'') = ''json'' @ r" by simp
    then have "startswith ((w1 @ s) @ (w2 @ ''```'')) ''json''"
      unfolding startswith_iff by (rule exI)
    then have "startswith (w1 @ s) ''json''"
      using foreign by (rule startswith_append_foreign)
    with assms(1) show False by contradiction
  qed
  have marker: "startswith ?x ''```''" "drop 3 ?x = ?u @ ''```''"
    by (simp_all add: startswith_def)
  have tail: "endswith (?u @ ''```'') ''```''"
             "take (length (?u @ ''```'') - 3) (?u @ ''```'') = ?u"
    by (simp_all add: endswith_def)
  from x notag marker tail have "strip_code_block ?x = strip ?u"
    by (simp add: strip_code_block_def)
  with assms(2,3) show ?thesis by (simp add: strip_padded)
qed

lemma parse_response_by_block:
  assumes "strip_code_block a = strip_code_block b"
  shows "parse_response rt self (Some a) = parse_response rt self (Some b)"
proof -
  have "parse_try rt self (Some a) = parse_try rt self (Some b)"
    unfolding parse_try_def option.case assms by (rule refl)
  then show ?thesis
    unfolding parse_response_def by (rule arg_cong)
qed


text \<open>
  C6, as the code has it. A response that is itself wrapped in markers loses one pair
  of them and no more, so wrapping it once more changes what is parsed: the body
  \<open>```{"label":"complaint","confidence":0.9}```\<close> is parsed to the label
  \<open>Complaint\<close>, and the same body between \<open>```json\<close> and \<open>```\<close> is not.
\<close>

theorem fenced_response_counterexample:
  "parse_response sample_runtime sample_classifier
     (Some (''```json'' @ ''```{\"label\":\"complaint\",\"confidence\":0.9}```'' @ ''```'')) =
     Inl (ValueError ''Failed to parse JSON response: Extra data: line 1 column 39 (char 38)'') \<and>
   parse_response sample_runtime sample_classifier
     (Some ''```{\"label\":\"complaint\",\"confidence\":0.9}```'') =
     Inr \<lparr>parsed_label = ''Complaint'', parsed_confidence = PyFloat 0x3FECCCCCCCCCCCCD,
          parsed_rationale = PyNone\<rparr>"
  by code_simp

text \<open>
  C6, amended. For every response body whose stripped form neither begins nor ends
  with the marker \<open>```\<close>, the body between \<open>```json\<close> and \<open>```\<close>, with any
  whitespace between the markers and the body, is parsed as the body alone is; so is
  the body between \<open>```\<close> and \<open>```\<close>, when the text after the opening marker does
  not begin with \<open>json\<close>.
\<close>

theorem fenced_response_parses_alike:
  assumes "\<not> startswith (strip s) ''```''" and "\<not> endswith (strip s) ''```''"
      and "\<forall>c\<in>set w1. isspace c" and "\<forall>c\<in>set w2. isspace c"
  shows "parse_response rt self (Some (''```json'' @ w1 @ s @ w2 @ ''```'')) =
           parse_response rt self (Some s) \<and>
         (\<not> startswith (w1 @ s) ''json'' \<longrightarrow>
            parse_response rt self (Some (''```'' @ w1 @ s @ w2 @ ''```'')) =
              parse_response rt self (Some s))"
proof -
  have plain: "strip_code_block s = strip s"
    using assms(1,2) by (rule strip_code_block_plain)
  have "strip_code_block (''```json'' @ w1 @ s @ w2 @ ''```'') = strip_code_block s"
    using strip_code_block_tagged[OF assms(1,3,4)] plain by simp
  moreover have "strip_code_block (''```'' @ w1 @ s @ w2 @ ''```'') = strip_code_block s"
    if "\<not> startswith (w1 @ s) ''json''"
    using strip_code_block_untagged[OF that assms(3,4)] plain by simp
  ultimately show ?thesis
    by (blast intro: parse_response_by_block)
qed

lemma sample_body_plain:
  "\<not> startswith (strip ''{\"label\":\"complaint\",\"confidence\":0.9}'') ''```'' \<and>
   \<not> endswith (strip ''{\"label\":\"complaint\",\"confidence\":0.9}'') ''```'' \<and>
   \<not> startswith ([CHR 0x0A] @ ''{\"label\":\"complaint\",\"confidence\":0.9}'') ''json''"
  by code_simp

lemma sample_parse_complaint:
  "parse_response sample_runtime sample_classifier
     (Some ''{\"label\":\"complaint\",\"confidence\":0.9}'') =
   Inr \<lparr>parsed_label = ''Complaint'', parsed_confidence = PyFloat 0x3FECCCCCCCCCCCCD,
        parsed_rationale = PyNone\<rparr>"
  by code_simp

theorem fenced_response_parses_alike_witness:
  "\<not> startswith (strip ''{\"label\":\"complaint\",\"confidence\":0.9}'') ''```'' \<and>
   \<not> endswith (strip ''{\"label\":\"complaint\",\"confidence\":0.9}'') ''```'' \<and>
   isspace (CHR 0x0A) \<and>
   \<not> startswith ([CHR 0x0A] @ ''{\"label\":\"complaint\",\"confidence\":0.9}'') ''json'' \<and>
   parse_response sample_runtime sample_classifier
     (Some (''```json'' @ [CHR 0x0A] @ ''{\"label\":\"complaint\",\"confidence\":0.9}'' @
            [CHR 0x0A] @ ''```'')) =
     Inr \<lparr>parsed_label = ''Complaint'', parsed_confidence = PyFloat 0x3FECCCCCCCCCCCCD,
          parsed_rationale = PyNone\<rparr> \<and>
   parse_response sample_runtime sample_classifier
     (Some (''```'' @ [CHR 0x0A] @ ''{\"label\":\"complaint\",\"confidence\":0.9}'' @
            [CHR 0x0A] @ ''```'')) =
     Inr \<lparr>parsed_label = ''Complaint'', parsed_confidence = PyFloat 0x3FECCCCCCCCCCCCD,
          parsed_rationale = PyNone\<rparr>"
proof -
  have nl: "\<forall>c\<in>set [CHR 0x0A]. isspace c" by (simp add: isspace_def)
  note alike = fenced_response_parses_alike[OF sample_body_plain[THEN conjunct1]
      sample_body_plain[THEN conjunct2, THEN conjunct1] nl nl,
      of sample_runtime sample_classifier]
  from alike sample_body_plain sample_parse_complaint nl show ?thesis
    by simp
qed

section \<open>Construction\<close>

lemma init_no_key:
  assumes "\<not> truthy key_arg" and "\<not> truthy (getenv rt ''OPENAI_API_KEY'')"
  shows "init rt key_arg m la cf =
           Inl (ValueError (''OpenAI API key not found. Set OPENAI_API_KEY environment variable '' @
                            ''or pass api_key parameter.''))"
  using assms by (auto simp: init_def truthy_def split: option.splits)

lemma init_no_client:
  assumes "(if truthy key_arg then key_arg else getenv rt ''OPENAI_API_KEY'') = Some k"
      and "k \<noteq> []" and "new_client rt k = Some e"
  shows "init rt key_arg m la cf = Inl e"
  using assms by (simp add: init_def)

lemma init_without_config:
  assumes "(if truthy key_arg then key_arg else getenv rt ''OPENAI_API_KEY'') = Some k"
      and "k \<noteq> []" and "new_client rt k = None"
      and "\<not> (truthy cf \<and> path_exists rt (case cf of Some p \<Rightarrow> p | None \<Rightarrow> []))"
  shows "init rt key_arg m la cf =
           (let ls = (case la of None \<Rightarrow> default_labels
                      | Some ls \<Rightarrow> if ls = [] then default_labels else ls)
            in if length ls < 2
               then Inl (ValueError ''At least 2 labels are required for classification'')
               else Inr \<lparr>api_key = k, model = m, labels = ls,
                         prompt_template = default_prompt_template\<rparr>)"
  using assms by (auto simp: init_def Let_def)

lemma init_with_config_labels:
  assumes "(if truthy key_arg then key_arg else getenv rt ''OPENAI_API_KEY'') = Some k"
      and "k \<noteq> []" and "new_client rt k = None"
      and "p \<noteq> []" and "path_exists rt p" and "load_config rt p = Inr cfg"
      and "cfg_labels cfg = Some ls"
  shows "init rt key_arg m la (Some p) =
           (if length ls < 2
            then Inl (ValueError ''At least 2 labels are required for classification'')
            else Inr \<lparr>api_key = k, model = m, labels = ls,
                      prompt_template = (case cfg_prompt_template cfg of
                                           Some t \<Rightarrow> t | None \<Rightarrow> default_prompt_template)\<rparr>)"
  using assms by (auto simp: init_def Let_def truthy_def)

lemma init_Inr_labels:
  assumes "init rt key_arg m la cf = Inr eng"
  shows "2 \<le> length (labels eng) \<and>
         (labels eng = default_labels \<or> la = Some (labels eng) \<or>
          (\<exists>p cfg. cf = Some p \<and> load_config rt p = Inr cfg \<and>
                   cfg_labels cfg = Some (labels eng)))"
  using assms
  by (auto simp: init_def Let_def truthy_def
           split: option.splits if_splits sum.splits)


text \<open>
  C7, as the code has it. An empty list of labels is fewer than two labels, and
  construction with it succeeds: \<open>labels or self._default_labels()\<close> replaces an
  empty list by the four default labels.
\<close>

theorem init_empty_labels_counterexample:
  "init sample_runtime (Some ''sk-test'') ''gpt-3.5-turbo'' (Some []) None =
     Inr \<lparr>api_key = ''sk-test'', model = ''gpt-3.5-turbo'',
          labels = [''Complaint'', ''Inquiry'', ''Feedback'', ''Other''],
          prompt_template = default_prompt_template\<rparr>"
  by code_simp

text \<open>
  C7, amended. Construction fails with the \<open>ValueError\<close> of the missing key when
  neither the argument nor the environment gives a non-empty key, and with the
  exception of the client when the client cannot be made. With a key and a client:
  when no configuration file is read, construction fails with the \<open>ValueError\<close> of
  the labels for a list of one label, succeeds with the list given for a list of
  two or more labels, and succeeds with the four default labels when the list is
  absent or empty; when a configuration file is read and has a \<open>labels\<close> entry,
  construction fails for an entry of fewer than two labels and succeeds with the
  entry for one of two or more.
\<close>

theorem init_outcomes:
  "(\<not> truthy key_arg \<and> \<not> truthy (getenv rt ''OPENAI_API_KEY'') \<longrightarrow>
      init rt key_arg m la cf =
        Inl (ValueError (''OpenAI API key not found. Set OPENAI_API_KEY environment variable '' @
                         ''or pass api_key parameter.''))) \<and>
   (\<forall>k. (if truthy key_arg then key_arg else getenv rt ''OPENAI_API_KEY'') = Some k \<and> k \<noteq> [] \<longrightarrow>
      (\<forall>e. new_client rt k = Some e \<longrightarrow> init rt key_arg m la cf = Inl e) \<and>
      (new_client rt k = None \<and>
       \<not> (truthy cf \<and> path_exists rt (case cf of Some p \<Rightarrow> p | None \<Rightarrow> [])) \<longrightarrow>
         (\<forall>l. la = Some [l] \<longrightarrow>
            init rt key_arg m la cf =
              Inl (ValueError ''At least 2 labels are required for classification'')) \<and>
         (\<forall>ls. la = Some ls \<and> 2 \<le> length ls \<longrightarrow>
            init rt key_arg m la cf =
              Inr \<lparr>api_key = k, model = m, labels = ls,
                   prompt_template = default_prompt_template\<rparr>) \<and>
         (la = None \<or> la = Some [] \<longrightarrow>
            init rt key_arg m la cf =
              Inr \<lparr>api_key = k, model = m, labels = default_labels,
                   prompt_template = default_prompt_template\<rparr>)) \<and>
      (\<forall>p cfg ls.
         new_client rt k = None \<and> cf = Some p \<and> p \<noteq> [] \<and> path_exists rt p \<and>
         load_config rt p = Inr cfg \<and> cfg_labels cfg = Some ls \<longrightarrow>
           (length ls < 2 \<longrightarrow>
              init rt key_arg m la cf =
                Inl (ValueError ''At least 2 labels are required for classification'')) \<and>
           (2 \<le> length ls \<longrightarrow>
              init rt key_arg m la cf =
                Inr \<lparr>api_key = k, model = m, labels = ls,
                     prompt_template = (case cfg_prompt_template cfg of
                                          Some t \<Rightarrow> t | None \<Rightarrow> default_prompt_template)\<rparr>)))"
proof -
  have no_key: "init rt key_arg m la cf =
        Inl (ValueError (''OpenAI API key not found. Set OPENAI_API_KEY environment variable '' @
                         ''or pass api_key parameter.''))"
    if "\<not> truthy key_arg \<and> \<not> truthy (getenv rt ''OPENAI_API_KEY'')"
    using that by (simp add: init_no_key)
  have no_client: "init rt key_arg m la cf = Inl e"
    if "(if truthy key_arg then key_arg else getenv rt ''OPENAI_API_KEY'') = Some k \<and> k \<noteq> []"
       "new_client rt k = Some e" for k e
    using that init_no_client[of key_arg rt k e m la cf] by simp
  have plain: "(\<forall>l. la = Some [l] \<longrightarrow>
            init rt key_arg m la cf =
              Inl (ValueError ''At least 2 labels are required for classification'')) \<and>
         (\<forall>ls. la = Some ls \<and> 2 \<le> length ls \<longrightarrow>
            init rt key_arg m la cf =
              Inr \<lparr>api_key = k, model = m, labels = ls,
                   prompt_template = default_prompt_template\<rparr>) \<and>
         (la = None \<or> la = Some [] \<longrightarrow>
            init rt key_arg m la cf =
              Inr \<lparr>api_key = k, model = m, labels = default_labels,
                   prompt_template = default_prompt_template\<rparr>)"
    if "(if truthy key_arg then key_arg else getenv rt ''OPENAI_API_KEY'') = Some k \<and> k \<noteq> []"
       "new_client rt k = None \<and>
        \<not> (truthy cf \<and> path_exists rt (case cf of Some p \<Rightarrow> p | None \<Rightarrow> []))" for k
  proof -
    note unfolded = init_without_config[of key_arg rt k cf m la]
    from that unfolded show ?thesis
      by (auto simp: Let_def default_labels_def)
  qed
  have configured: "(length ls < 2 \<longrightarrow>
              init rt key_arg m la cf =
                Inl (ValueError ''At least 2 labels are required for classification'')) \<and>
           (2 \<le> length ls \<longrightarrow>
              init rt key_arg m la cf =
                Inr \<lparr>api_key = k, model = m, labels = ls,
                     prompt_template = (case cfg_prompt_template cfg of
                                          Some t \<Rightarrow> t | None \<Rightarrow> default_prompt_template)\<rparr>)"
    if "(if truthy key_arg then key_arg else getenv rt ''OPENAI_API_KEY'') = Some k \<and> k \<noteq> []"
       "new_client rt k = None \<and> cf = Some p \<and> p \<noteq> [] \<and> path_exists rt p \<and>
        load_config rt p = Inr cfg \<and> cfg_labels cfg = Some ls" for k p cfg ls
    using that init_with_config_labels[of key_arg rt k p cfg ls m la] by auto
  from no_key no_client plain configured show ?thesis by blast
qed


lemma sample_environment:
  "getenv sample_runtime name = None" "new_client sample_runtime k = None"
  "\<not> path_exists sample_runtime p"
  by (simp_all add: sample_runtime_def)

lemma config_environment:
  "new_client config_runtime k = None"
  "path_exists config_runtime ''config.json''"
  "load_config config_runtime ''config.json'' =
     Inr \<lparr>cfg_labels = Some [''Spam''], cfg_prompt_template = None\<rparr>"
  by (simp_all add: config_runtime_def sample_runtime_def)

theorem init_outcomes_witness:
  "\<not> truthy None \<and> \<not> truthy (getenv sample_runtime ''OPENAI_API_KEY'') \<and>
   init sample_runtime None ''gpt-3.5-turbo'' (Some [''Spam'', ''Ham'']) None =
     Inl (ValueError (''OpenAI API key not found. Set OPENAI_API_KEY environment variable '' @
                      ''or pass api_key parameter.'')) \<and>
   truthy (Some ''sk-test'') \<and> new_client sample_runtime ''sk-test'' = None \<and>
   init sample_runtime (Some ''sk-test'') ''gpt-3.5-turbo'' (Some [''Spam'']) None =
     Inl (ValueError ''At least 2 labels are required for classification'') \<and>
   init sample_runtime (Some ''sk-test'') ''gpt-3.5-turbo'' (Some [''Spam'', ''Ham'']) None =
     Inr \<lparr>api_key = ''sk-test'', model = ''gpt-3.5-turbo'', labels = [''Spam'', ''Ham''],
          prompt_template = default_prompt_template\<rparr> \<and>
   init sample_runtime (Some ''sk-test'') ''gpt-3.5-turbo'' None None =
     Inr \<lparr>api_key = ''sk-test'', model = ''gpt-3.5-turbo'', labels = default_labels,
          prompt_template = default_prompt_template\<rparr> \<and>
   path_exists config_runtime ''config.json'' \<and>
   load_config config_runtime ''config.json'' =
     Inr \<lparr>cfg_labels = Some [''Spam''], cfg_prompt_template = None\<rparr> \<and>
   init config_runtime (Some ''sk-test'') ''gpt-3.5-turbo'' (Some [''Spam'', ''Ham''])
       (Some ''config.json'') =
     Inl (ValueError ''At least 2 labels are required for classification'')"
proof -
  have key: "truthy (Some ''sk-test'')" "\<not> truthy None"
    by (simp_all add: truthy_def)
  have a: "init sample_runtime None ''gpt-3.5-turbo'' (Some [''Spam'', ''Ham'']) None =
     Inl (ValueError (''OpenAI API key not found. Set OPENAI_API_KEY environment variable '' @
                      ''or pass api_key parameter.''))"
    using init_outcomes[of None sample_runtime "''gpt-3.5-turbo''" "Some [''Spam'', ''Ham'']" None]
          key sample_environment
    by simp
  note with_key = init_outcomes[of "Some ''sk-test''" sample_runtime "''gpt-3.5-turbo''" _ None,
      THEN conjunct2, rule_format, of "''sk-test''", THEN conjunct2, THEN conjunct1, rule_format]
  have b: "init sample_runtime (Some ''sk-test'') ''gpt-3.5-turbo'' (Some [''Spam'']) None =
     Inl (ValueError ''At least 2 labels are required for classification'')"
    using with_key[of "Some [''Spam'']", THEN conjunct1, rule_format, of "''Spam''"]
          key sample_environment
    by (simp add: truthy_def)
  have c: "init sample_runtime (Some ''sk-test'') ''gpt-3.5-turbo'' (Some [''Spam'', ''Ham'']) None =
     Inr \<lparr>api_key = ''sk-test'', model = ''gpt-3.5-turbo'', labels = [''Spam'', ''Ham''],
          prompt_template = default_prompt_template\<rparr>"
    using with_key[of "Some [''Spam'', ''Ham'']", THEN conjunct2, THEN conjunct1, rule_format,
            of "[''Spam'', ''Ham'']"]
          key sample_environment
    by (simp add: truthy_def)
  have d: "init sample_runtime (Some ''sk-test'') ''gpt-3.5-turbo'' None None =
     Inr \<lparr>api_key = ''sk-test'', model = ''gpt-3.5-turbo'', labels = default_labels,
          prompt_template = default_prompt_template\<rparr>"
    using with_key[of None, THEN conjunct2, THEN conjunct2, rule_format]
          key sample_environment
    by (simp add: truthy_def)
  have e: "init config_runtime (Some ''sk-test'') ''gpt-3.5-turbo'' (Some [''Spam'', ''Ham''])
       (Some ''config.json'') =
     Inl (ValueError ''At least 2 labels are required for classification'')"
    using init_outcomes[of "Some ''sk-test''" config_runtime "''gpt-3.5-turbo''"
            "Some [''Spam'', ''Ham'']" "Some ''config.json''",
            THEN conjunct2, rule_format, of "''sk-test''", THEN conjunct2, THEN conjunct2,
            rule_format, of "''config.json''"
              "\<lparr>cfg_labels = Some [''Spam''], cfg_prompt_template = None\<rparr>" "[''Spam'']",
            THEN conjunct1]
          key config_environment
    by simp
  from a b c d e key sample_environment config_environment show ?thesis
    by simp
qed


text \<open>
  C8, as the code has it. Construction checks the number of labels and nothing else:
  a list that names one label twice is stored as it is.
\<close>

theorem init_duplicate_labels_counterexample:
  "init sample_runtime (Some ''sk-test'') ''gpt-3.5-turbo'' (Some [''Spam'', ''Spam'']) None =
     Inr \<lparr>api_key = ''sk-test'', model = ''gpt-3.5-turbo'', labels = [''Spam'', ''Spam''],
          prompt_template = default_prompt_template\<rparr> \<and>
   \<not> distinct (labels \<lparr>api_key = ''sk-test'', model = ''gpt-3.5-turbo'',
                        labels = [''Spam'', ''Spam''],
                        prompt_template = default_prompt_template\<rparr>)"
  by code_simp

text \<open>
  C8, amended. The labels of a constructed classifier are, unchanged, the list it
  was given: the \<open>labels\<close> entry of the configuration file, or the \<open>labels\<close>
  argument, or the four default labels. The list has at least two elements;
  duplicates are neither rejected nor removed, so the stored labels are pairwise
  distinct when the list given is, as the default list is.
\<close>

theorem init_keeps_labels:
  assumes "init rt key_arg m la cf = Inr eng"
  shows "2 \<le> length (labels eng) \<and>
         (labels eng = default_labels \<or> la = Some (labels eng) \<or>
          (\<exists>p cfg. cf = Some p \<and> load_config rt p = Inr cfg \<and>
                   cfg_labels cfg = Some (labels eng))) \<and>
         distinct default_labels"
  using init_Inr_labels[OF assms] by (simp add: default_labels_def)

theorem init_keeps_labels_witness:
  "init sample_runtime (Some ''sk-test'') ''gpt-3.5-turbo'' (Some [''Spam'', ''Ham'']) None =
     Inr \<lparr>api_key = ''sk-test'', model = ''gpt-3.5-turbo'', labels = [''Spam'', ''Ham''],
          prompt_template = default_prompt_template\<rparr> \<and>
   2 \<le> length (labels \<lparr>api_key = ''sk-test'', model = ''gpt-3.5-turbo'',
                          labels = [''Spam'', ''Ham''],
                          prompt_template = default_prompt_template\<rparr>) \<and>
   labels \<lparr>api_key = ''sk-test'', model = ''gpt-3.5-turbo'', labels = [''Spam'', ''Ham''],
           prompt_template = default_prompt_template\<rparr> = [''Spam'', ''Ham''] \<and>
   distinct default_labels"
proof -
  have made:
    "init sample_runtime (Some ''sk-test'') ''gpt-3.5-turbo'' (Some [''Spam'', ''Ham'']) None =
       Inr \<lparr>api_key = ''sk-test'', model = ''gpt-3.5-turbo'', labels = [''Spam'', ''Ham''],
            prompt_template = default_prompt_template\<rparr>"
    by code_simp
  from init_keeps_labels[OF made] made show ?thesis by simp
qed

end
